theory Spec2Isabelle
  imports Main "HOL-Library.AList"
begin

section \<open>Rendering numbers\<close>

text \<open>
  JavaScript template literals render a non-negative integer in decimal. The counters
  of the program are JavaScript numbers; the model uses \<open>nat\<close>, which is exact for
  every counter below \<open>2 ^ 53\<close>.
\<close>

definition digit_char :: "nat \<Rightarrow> char" where
  "digit_char d = ''0123456789'' ! d"

function show_nat :: "nat \<Rightarrow> string" where
  "show_nat n = (if n < 10 then [digit_char n] else show_nat (n div 10) @ [digit_char (n mod 10)])"
  by pat_completeness auto
termination
  by (relation "measure id") auto

declare show_nat.simps [simp del]

section \<open>Errors\<close>

text \<open>
  \<open>MissingArgumentError\<close> and \<open>FullstackTestingError\<close> are the two classes that
  \<^verbatim>\<open>key_manager.mjs\<close> imports from \<^verbatim>\<open>errors.mjs\<close>. \<open>SystemError\<close> stands for an
  exception of Node's \<^verbatim>\<open>fs\<close> module, \<open>CryptoError\<close> for one of WebCrypto or of the
  X.509 library, \<open>KeytoolError\<close> for a failed run of the external key tool.
  \<open>CertificateVerificationError\<close> is a name of the specification's error taxonomy; no
  code path of the sources constructs it.
\<close>

datatype error_class =
    MissingArgumentError
  | FullstackTestingError
  | SystemError
  | CryptoError
  | KeytoolError
  | CertificateVerificationError

datatype error = Error error_class string


fun message :: "error \<Rightarrow> string" where
  "message (Error c m) = m"


section \<open>Paths, dates and the file system\<close>

text \<open>
  Paths are compared as strings. \<open>path_join\<close> is Node's \<^verbatim>\<open>path.join\<close> on a directory
  in normal form and a plain file name (no separator, not \<^verbatim>\<open>.\<close> or \<^verbatim>\<open>..\<close>), where
  normalisation changes nothing. Node identifiers are such plain names.
\<close>

definition path_join :: "string \<Rightarrow> string \<Rightarrow> string" where
  "path_join dir name = dir @ ''/'' @ name"

text \<open>
  A JavaScript \<open>Date\<close> by the values of its getters; \<open>month\<close> is what \<^verbatim>\<open>getMonth()\<close>
  returns, 0 for January. \<open>setFullYear\<close> moves 29 February of a year that is no leap
  year to 1 March.
\<close>

record date =
  year :: nat
  month :: nat
  day :: nat
  hours :: nat
  minutes :: nat
  seconds :: nat

definition leap_year :: "nat \<Rightarrow> bool" where
  "leap_year y = (if y mod 400 = 0 then True else if y mod 100 = 0 then False else y mod 4 = 0)"

definition setFullYear :: "date \<Rightarrow> nat \<Rightarrow> date" where
  "setFullYear d y =
     (if month d = 1 \<and> day d = 29 \<and> \<not> leap_year y
      then d\<lparr>year := y, month := 2, day := 1\<rparr>
      else d\<lparr>year := y\<rparr>)"

section \<open>Keys, signatures and certificates\<close>

text \<open>
  Cryptography is symbolic. A key pair is identified by a number; the private and the
  public half carry the same number. A signature names the key that made it and the
  message it signs, and verifies under the public half of that key only.
\<close>

datatype key_type = RSA nat | EC string

record algorithm =
  alg_name :: string
  alg_hash :: string
  alg_publicExponent :: nat
  alg_modulusLength :: nat
  alg_namedCurve :: string

definition SigningKeyAlgo :: algorithm where
  "SigningKeyAlgo = \<lparr>alg_name = ''RSASSA-PKCS1-v1_5'', alg_hash = ''SHA-384'',
     alg_publicExponent = 65537, alg_modulusLength = 3072, alg_namedCurve = ''''\<rparr>"

definition SigningKeyUsage :: "string list" where
  "SigningKeyUsage = [''sign'', ''verify'']"

definition TLSKeyAlgo :: algorithm where
  "TLSKeyAlgo = \<lparr>alg_name = ''RSASSA-PKCS1-v1_5'', alg_hash = ''SHA-384'',
     alg_publicExponent = 65537, alg_modulusLength = 4096, alg_namedCurve = ''''\<rparr>"

definition TLSKeyUsage :: "string list" where
  "TLSKeyUsage = [''sign'', ''verify'']"

definition ECKeyAlgo :: algorithm where
  "ECKeyAlgo = \<lparr>alg_name = ''ECDSA'', alg_hash = ''SHA-384'',
     alg_publicExponent = 0, alg_modulusLength = 0, alg_namedCurve = ''P-384''\<rparr>"

record private_key =
  priv_id :: nat
  priv_type :: key_type
  extractable :: bool
  usages :: "string list"

record public_key =
  pub_id :: nat
  pub_type :: key_type

record key_pair =
  kp_privateKey :: private_key
  kp_publicKey :: public_key

definition key_type_of :: "algorithm \<Rightarrow> key_type" where
  "key_type_of algo =
     (if alg_name algo = ''ECDSA'' then EC (alg_namedCurve algo) else RSA (alg_modulusLength algo))"

fun algorithm_accepts :: "algorithm \<Rightarrow> key_type \<Rightarrow> bool" where
  "algorithm_accepts algo (RSA bits) = (alg_name algo = ''RSASSA-PKCS1-v1_5'')"
| "algorithm_accepts algo (EC curve) = (alg_name algo = ''ECDSA'' \<and> alg_namedCurve algo = curve)"

text \<open>
  \<^verbatim>\<open>crypto.subtle.generateKey\<close> draws fresh key material. The draw is a parameter, the
  provider: it answers with the number of the new key pair, or rejects the request.
  The private half receives the usage \<^verbatim>\<open>sign\<close>.
\<close>

type_synonym provider = "algorithm \<Rightarrow> nat option"

definition generateKey :: "provider \<Rightarrow> algorithm \<Rightarrow> bool \<Rightarrow> string list \<Rightarrow> error + key_pair" where
  "generateKey prov algo ext keyUsages =
     (case prov algo of
        None \<Rightarrow> Inl (Error CryptoError ''OperationError'')
      | Some k \<Rightarrow>
          Inr \<lparr>kp_privateKey = \<lparr>priv_id = k, priv_type = key_type_of algo, extractable = ext,
                  usages = filter (\<lambda>u. u = ''sign'') keyUsages\<rparr>,
               kp_publicKey = \<lparr>pub_id = k, pub_type = key_type_of algo\<rparr>\<rparr>)"

datatype signature = Signature nat string


definition verify :: "public_key \<Rightarrow> string \<Rightarrow> signature \<Rightarrow> bool" where
  "verify key msg sg = (sg = Signature (pub_id key) msg)"

datatype key_usage_flag = digitalSignature | keyEncipherment | dataEncipherment | keyCertSign | cRLSign

datatype extension =
    BasicConstraintsExtension bool nat bool
  | ExtendedKeyUsageExtension "string list" bool
  | KeyUsagesExtension "key_usage_flag list" bool
  | SubjectKeyIdentifierExtension nat bool
  | AuthorityKeyIdentifierExtension nat bool

text \<open>
  A certificate with the fields the program reads. \<open>signed_by\<close> is the number of the
  private key whose signature the certificate carries.
\<close>

record certificate =
  serialNumber :: string
  subject :: string
  issuer :: string
  notBefore :: date
  notAfter :: date
  cert_publicKey :: public_key
  extensions :: "extension list"
  signed_by :: nat

text \<open>
  \<^verbatim>\<open>X509CertificateGenerator.create\<close>: the certificate over the given fields, signed
  with \<open>signingKey\<close>; signing needs the usage \<^verbatim>\<open>sign\<close>.
  \<^verbatim>\<open>createSelfSigned\<close> is \<open>create\<close> with the name as subject and issuer and the
  pair's own halves.
\<close>

definition X509_create ::
  "string \<Rightarrow> string \<Rightarrow> string \<Rightarrow> date \<Rightarrow> date \<Rightarrow> public_key \<Rightarrow> private_key \<Rightarrow> extension list
     \<Rightarrow> error + certificate" where
  "X509_create serial subj iss nb na pub signingKey exts =
     (if ''sign'' \<in> set (usages signingKey)
      then Inr \<lparr>serialNumber = serial, subject = subj, issuer = iss, notBefore = nb, notAfter = na,
                cert_publicKey = pub, extensions = exts, signed_by = priv_id signingKey\<rparr>
      else Inl (Error CryptoError ''InvalidAccessError''))"

definition X509_createSelfSigned ::
  "string \<Rightarrow> string \<Rightarrow> date \<Rightarrow> date \<Rightarrow> key_pair \<Rightarrow> extension list \<Rightarrow> error + certificate" where
  "X509_createSelfSigned serial name nb na keys exts =
     X509_create serial name name nb na (kp_publicKey keys) (kp_privateKey keys) exts"

text \<open>\<^verbatim>\<open>cert.verify({ publicKey, signatureOnly: true })\<close>: the signature alone, no dates.\<close>

definition cert_verify :: "certificate \<Rightarrow> public_key \<Rightarrow> bool" where
  "cert_verify cert pub = (signed_by cert = pub_id pub)"

definition isSelfSigned :: "certificate \<Rightarrow> bool" where
  "isSelfSigned cert = (subject cert = issuer cert \<and> cert_verify cert (cert_publicKey cert))"

fun authorityKeyId :: "extension list \<Rightarrow> nat option" where
  "authorityKeyId [] = None"
| "authorityKeyId (AuthorityKeyIdentifierExtension k c # es) = Some k"
| "authorityKeyId (e # es) = authorityKeyId es"

fun subjectKeyId :: "extension list \<Rightarrow> nat option" where
  "subjectKeyId [] = None"
| "subjectKeyId (SubjectKeyIdentifierExtension k c # es) = Some k"
| "subjectKeyId (e # es) = subjectKeyId es"

text \<open>
  \<^verbatim>\<open>X509ChainBuilder\<close>. The issuer of a certificate that is not self-signed is the
  first of the builder's certificates whose subject is the certificate's issuer, whose
  subject key identifier agrees with the certificate's authority key identifier where
  both are present, and whose public key verifies the certificate's signature.
  \<open>build\<close> follows issuers from the certificate upwards and refuses a cycle.
\<close>

definition issued_by :: "certificate \<Rightarrow> certificate \<Rightarrow> bool" where
  "issued_by cert item =
     (subject item = issuer cert \<and>
      (case authorityKeyId (extensions cert) of
         None \<Rightarrow> True
       | Some a \<Rightarrow> (case subjectKeyId (extensions item) of None \<Rightarrow> True | Some s \<Rightarrow> s = a)) \<and>
      cert_verify cert (cert_publicKey item))"

definition findIssuer :: "certificate list \<Rightarrow> certificate \<Rightarrow> certificate option" where
  "findIssuer certificates cert =
     (if isSelfSigned cert then None else find (issued_by cert) certificates)"

function build_from :: "certificate list \<Rightarrow> certificate list \<Rightarrow> certificate \<Rightarrow> error + certificate list" where
  "build_from certificates chain current =
     (case findIssuer certificates current of
        None \<Rightarrow> Inr chain
      | Some next \<Rightarrow>
          if next \<in> set chain
          then Inl (Error CryptoError ''Cannot build a certificate chain. Circular dependency.'')
          else build_from certificates (chain @ [next]) next)"
  by pat_completeness auto
termination
proof (relation "measure (\<lambda>(certificates, chain, current). card (set certificates - set chain))")
  show "wf (measure (\<lambda>(certificates, chain, current). card (set certificates - set chain)))"
    by simp
next
  fix certificates chain :: "certificate list" and current x2 :: certificate
  assume found: "findIssuer certificates current = Some x2" and fresh: "x2 \<notin> set chain"
  have "x2 \<in> set certificates"
    using found by (auto simp: findIssuer_def find_Some_iff split: if_splits)
  then have "set certificates - set (chain @ [x2]) \<subset> set certificates - set chain"
    using fresh by auto
  then have "card (set certificates - set (chain @ [x2])) < card (set certificates - set chain)"
    by (intro psubset_card_mono) auto
  then show "((certificates, chain @ [x2], x2), (certificates, chain, current))
      \<in> measure (\<lambda>(certificates, chain, current). card (set certificates - set chain))"
    by simp
qed

declare build_from.simps [simp del]

definition X509ChainBuilder_build :: "certificate list \<Rightarrow> certificate \<Rightarrow> error + certificate list" where
  "X509ChainBuilder_build certificates cert = build_from certificates [cert] cert"

section \<open>PEM text and file contents\<close>

text \<open>
  A PEM block is the encoding of a DER value under a label. The text of a file is a
  sequence of characters and PEM blocks; \<^verbatim>\<open>PemConverter.decode\<close> returns the values of
  the blocks of a text in their order, whatever their labels, and skips the characters
  between them.
\<close>

datatype der = Pkcs8 nat key_type | X509 certificate

datatype item = Chr char | Pem string der

type_synonym content = "item list"

definition PemConverter_encode :: "der \<Rightarrow> string \<Rightarrow> content" where
  "PemConverter_encode raw tag = [Pem tag raw]"

fun PemConverter_decode :: "content \<Rightarrow> der list" where
  "PemConverter_decode [] = []"
| "PemConverter_decode (Chr c # rest) = PemConverter_decode rest"
| "PemConverter_decode (Pem tag raw # rest) = raw # PemConverter_decode rest"

definition text_of :: "string \<Rightarrow> content" where
  "text_of s = map Chr s"

text \<open>\<^verbatim>\<open>new x509.X509Certificate(raw)\<close> and \<^verbatim>\<open>cert.toString('pem')\<close>.\<close>

fun X509Certificate :: "der \<Rightarrow> error + certificate" where
  "X509Certificate (X509 c) = Inr c"
| "X509Certificate (Pkcs8 k t) = Inl (Error CryptoError ''Cannot decode the certificate'')"

definition cert_toString_pem :: "certificate \<Rightarrow> content" where
  "cert_toString_pem c = PemConverter_encode (X509 c) ''CERTIFICATE''"

text \<open>
  \<^verbatim>\<open>crypto.subtle.exportKey('pkcs8', key)\<close> needs an extractable key.
  \<^verbatim>\<open>crypto.subtle.importKey('pkcs8', raw, algo, extractable, usages)\<close> needs a PKCS#8
  value of a key type that the algorithm accepts; \<open>None\<close> is \<^verbatim>\<open>undefined\<close>.
\<close>

definition exportKey_pkcs8 :: "private_key \<Rightarrow> error + der" where
  "exportKey_pkcs8 key =
     (if extractable key then Inr (Pkcs8 (priv_id key) (priv_type key))
      else Inl (Error CryptoError ''InvalidAccessError''))"

fun importKey_pkcs8 :: "der option \<Rightarrow> algorithm \<Rightarrow> bool \<Rightarrow> string list \<Rightarrow> error + private_key" where
  "importKey_pkcs8 (Some (Pkcs8 k t)) algo ext keyUsages =
     (if algorithm_accepts algo t
      then Inr \<lparr>priv_id = k, priv_type = t, extractable = ext, usages = keyUsages\<rparr>
      else Inl (Error CryptoError ''DataError''))"
| "importKey_pkcs8 (Some (X509 c)) algo ext keyUsages = Inl (Error CryptoError ''DataError'')"
| "importKey_pkcs8 None algo ext keyUsages = Inl (Error CryptoError ''TypeError'')"

text \<open>
  The external key tool. One run is a command with its alias and keystore, the file it
  reads and the file it writes, and the remaining options as the program renders them.
\<close>

datatype keytool_cmd = GenKeyPair | CertReq | GenCert | ImportCert | ExportCert

record keytool_call =
  kt_cmd :: keytool_cmd
  kt_alias :: string
  kt_keystore :: string
  kt_infile :: "string option"
  kt_outfile :: "string option"
  kt_options :: "string list"

text \<open>
  The state of the world: the files with their contents, the directories, the runs of
  the key tool so far, and the number of temporary directories made so far. File
  operations fail in the model where Node reports a missing file or a copy of a file
  onto itself; failures of the environment (permissions, a full disk) are outside the
  model.
\<close>

record world =
  files :: "string \<Rightarrow> content option"
  dirs :: "string set"
  keytool_log :: "keytool_call list"
  tmp_seq :: nat

type_synonym 'a io = "world \<Rightarrow> (error + 'a) \<times> world"

definition io_return :: "'a \<Rightarrow> 'a io" where
  "io_return x w = (Inr x, w)"


definition io_bind :: "'a io \<Rightarrow> ('a \<Rightarrow> 'b io) \<Rightarrow> 'b io" where
  "io_bind m f w = (case m w of (Inl e, w') \<Rightarrow> (Inl e, w') | (Inr x, w') \<Rightarrow> f x w')"

fun io_foreach :: "('a \<Rightarrow> unit io) \<Rightarrow> 'a list \<Rightarrow> unit io" where
  "io_foreach body [] = io_return ()"
| "io_foreach body (x # xs) = io_bind (body x) (\<lambda>u. io_foreach body xs)"

definition existsSync :: "string \<Rightarrow> world \<Rightarrow> bool" where
  "existsSync p w = (files w p \<noteq> None \<or> p \<in> dirs w)"

definition writeFileSync :: "string \<Rightarrow> content \<Rightarrow> world \<Rightarrow> world" where
  "writeFileSync p data w = w\<lparr>files := (files w)(p \<mapsto> data)\<rparr>"

definition appendFileSync :: "string \<Rightarrow> content \<Rightarrow> world \<Rightarrow> world" where
  "appendFileSync p data w =
     w\<lparr>files := (files w)(p \<mapsto> (case files w p of None \<Rightarrow> data | Some old \<Rightarrow> old @ data))\<rparr>"

definition readFileSync :: "string \<Rightarrow> world \<Rightarrow> error + content" where
  "readFileSync p w =
     (case files w p of None \<Rightarrow> Inl (Error SystemError ''ENOENT'') | Some c \<Rightarrow> Inr c)"

definition rmSync :: "string \<Rightarrow> unit io" where
  "rmSync p w =
     (case files w p of
        None \<Rightarrow> (Inl (Error SystemError ''ENOENT''), w)
      | Some c \<Rightarrow> (Inr (), w\<lparr>files := (files w)(p := None)\<rparr>))"

definition cpSync :: "string \<Rightarrow> string \<Rightarrow> unit io" where
  "cpSync src dest w =
     (case files w src of
        None \<Rightarrow> (Inl (Error SystemError ''ENOENT''), w)
      | Some c \<Rightarrow>
          if src = dest then (Inl (Error SystemError ''ERR_FS_CP_EINVAL''), w)
          else (Inr (), w\<lparr>files := (files w)(dest \<mapsto> c)\<rparr>))"

definition mkdirSync :: "string \<Rightarrow> world \<Rightarrow> world" where
  "mkdirSync p w = w\<lparr>dirs := insert p (dirs w)\<rparr>"

section \<open>Constants and templates\<close>

text \<open>
  Modelled from the spec: \<^verbatim>\<open>constants.mjs\<close> and \<^verbatim>\<open>templates.mjs\<close> are missing from the
  sources. The key prefixes and file names are those of the specification's key file
  layout (\<^verbatim>\<open>{prefix}-private-{nodeId}.pem\<close>, \<^verbatim>\<open>{prefix}-public-{nodeId}.pem\<close>,
  \<^verbatim>\<open>hedera-{nodeId}.key\<close>, \<^verbatim>\<open>hedera-{nodeId}.crt\<close>, \<^verbatim>\<open>private-{nodeId}.pfx\<close>, one
  shared \<^verbatim>\<open>public.pfx\<close>), of the key listing in the repository's guide
  (\<^verbatim>\<open>s-private-node0.pem\<close>, \<^verbatim>\<open>a-public-node0.pem\<close>) and of \<^verbatim>\<open>key_manager.mjs\<close> itself
  (the comments on the s-key, a-key and e-key, \<^verbatim>\<open>-dname cn=s-${nodeId}\<close>, the literal
  \<^verbatim>\<open>public.pfx\<close>). The calls in \<^verbatim>\<open>key_manager.mjs\<close> give the templates their parameters,
  the prefix first. A parameter that a call leaves out is \<^verbatim>\<open>undefined\<close>, here \<open>None\<close>,
  and a template literal renders it as the word \<^verbatim>\<open>undefined\<close>. The number of years a
  certificate is valid, \<^verbatim>\<open>constants.CERTIFICATE_VALIDITY_YEARS\<close>, is a parameter of the
  functions that read it.
\<close>

definition SIGNING_KEY_PREFIX :: string where
  "SIGNING_KEY_PREFIX = ''s''"

definition AGREEMENT_KEY_PREFIX :: string where
  "AGREEMENT_KEY_PREFIX = ''a''"

definition ENCRYPTION_KEY_PREFIX :: string where
  "ENCRYPTION_KEY_PREFIX = ''e''"


definition js_string :: "string option \<Rightarrow> string" where
  "js_string v = (case v of None \<Rightarrow> ''undefined'' | Some s \<Rightarrow> s)"

definition renderGossipPemPrivateKeyFile :: "string option \<Rightarrow> string option \<Rightarrow> string" where
  "renderGossipPemPrivateKeyFile prefix nodeId =
     js_string prefix @ ''-private-'' @ js_string nodeId @ ''.pem''"

definition renderGossipPemPublicKeyFile :: "string option \<Rightarrow> string option \<Rightarrow> string" where
  "renderGossipPemPublicKeyFile prefix nodeId =
     js_string prefix @ ''-public-'' @ js_string nodeId @ ''.pem''"

definition renderTLSPemPrivateKeyFile :: "string \<Rightarrow> string" where
  "renderTLSPemPrivateKeyFile nodeId = ''hedera-'' @ nodeId @ ''.key''"

definition renderNodeFriendlyName :: "string \<Rightarrow> string \<Rightarrow> string" where
  "renderNodeFriendlyName prefix nodeId = prefix @ ''-'' @ nodeId"

section \<open>key_manager.mjs: PEM keys\<close>

text \<open>
  A node key is the dictionary \<^verbatim>\<open>{ privateKey, certificate, certificateChain }\<close>; the
  file names of a key are \<^verbatim>\<open>{ privateKeyFile, certificateFile }\<close>. An argument that is
  \<^verbatim>\<open>null\<close> or \<^verbatim>\<open>undefined\<close> is \<open>None\<close>; an empty string is falsy, as in JavaScript.
  Calls to the logger are left out.
\<close>

record node_key =
  privateKey :: private_key
  certificate :: certificate
  certificateChain :: "certificate list"

record key_files =
  privateKeyFile :: string
  certificateFile :: string

definition bind_result :: "error + 'a \<Rightarrow> ('a \<Rightarrow> error + 'b) \<Rightarrow> error + 'b" where
  "bind_result r f = (case r of Inl e \<Rightarrow> Inl e | Inr v \<Rightarrow> f v)"

definition newline :: content where
  "newline = [Chr (CHR 0x0A)]"

definition convertPrivateKeyToPem :: "private_key \<Rightarrow> error + content" where
  "convertPrivateKeyToPem key =
     bind_result (exportKey_pkcs8 key) (\<lambda>ab. Inr (PemConverter_encode ab ''PRIVATE KEY''))"

definition convertPemToPrivateKey :: "content \<Rightarrow> algorithm option \<Rightarrow> string list \<Rightarrow> error + private_key" where
  "convertPemToPrivateKey pemStr algo keyUsages =
     (case algo of
        None \<Rightarrow> Inl (Error MissingArgumentError ''algo is required'')
      | Some a \<Rightarrow>
          (let items = PemConverter_decode pemStr;
               lastItem = (if items = [] then None else Some (last items))
           in importKey_pkcs8 lastItem a False keyUsages))"

definition prepareNodeKeyFilePaths :: "string \<Rightarrow> string \<Rightarrow> string \<Rightarrow> error + key_files" where
  "prepareNodeKeyFilePaths nodeId keysDir keyPrefix =
     (if nodeId = [] then Inl (Error MissingArgumentError ''nodeId is required'')
      else if keysDir = [] then Inl (Error MissingArgumentError ''keysDir is required'')
      else if keyPrefix = [] then Inl (Error MissingArgumentError ''keyPrefix is required'')
      else Inr \<lparr>privateKeyFile =
                  path_join keysDir (renderGossipPemPrivateKeyFile (Some keyPrefix) (Some nodeId)),
                certificateFile =
                  path_join keysDir (renderGossipPemPublicKeyFile (Some keyPrefix) (Some nodeId))\<rparr>)"

definition prepareTLSKeyFilePaths :: "string \<Rightarrow> string \<Rightarrow> error + key_files" where
  "prepareTLSKeyFilePaths nodeId keysDir =
     (if nodeId = [] then Inl (Error MissingArgumentError ''nodeId is required'')
      else if keysDir = [] then Inl (Error MissingArgumentError ''keysDir is required'')
      else Inr \<lparr>privateKeyFile = path_join keysDir (''hedera-'' @ nodeId @ ''.key''),
                certificateFile = path_join keysDir (''hedera-'' @ nodeId @ ''.crt'')\<rparr>)"

text \<open>
  \<open>storeNodeKey\<close>: the argument checks, the PEM text of the private key, then the three
  steps on the files: write the key file, remove the certificate file if it exists,
  append every certificate of the chain with a line break.
\<close>

definition write_key_and_chain :: "key_files \<Rightarrow> content \<Rightarrow> content list \<Rightarrow> key_files io" where
  "write_key_and_chain nodeKeyFiles keyPem certPems w =
     (let w1 = writeFileSync (privateKeyFile nodeKeyFiles) keyPem w in
      io_bind
        (if existsSync (certificateFile nodeKeyFiles) w1 then rmSync (certificateFile nodeKeyFiles)
         else io_return ())
        (\<lambda>u w2. (Inr nodeKeyFiles,
           fold (\<lambda>certPem. appendFileSync (certificateFile nodeKeyFiles) (certPem @ newline))
             certPems w2))
        w1)"

definition storeNodeKey ::
  "string \<Rightarrow> node_key option \<Rightarrow> string \<Rightarrow> key_files option \<Rightarrow> key_files io" where
  "storeNodeKey nodeId nodeKey keysDir nodeKeyFiles w =
     (if nodeId = [] then (Inl (Error MissingArgumentError ''nodeId is required''), w)
      else (case nodeKey of
        None \<Rightarrow> (Inl (Error MissingArgumentError ''nodeKey.privateKey is required''), w)
      | Some key \<Rightarrow>
          if keysDir = [] then (Inl (Error MissingArgumentError ''keysDir is required''), w)
          else (case nodeKeyFiles of
            None \<Rightarrow> (Inl (Error MissingArgumentError ''nodeKeyFiles.privateKeyFile is required''), w)
          | Some nkf \<Rightarrow>
              if privateKeyFile nkf = []
              then (Inl (Error MissingArgumentError ''nodeKeyFiles.privateKeyFile is required''), w)
              else if certificateFile nkf = []
              then (Inl (Error MissingArgumentError ''nodeKeyFiles.certificateFile is required''), w)
              else (case convertPrivateKeyToPem (privateKey key) of
                Inl e \<Rightarrow> (Inl e, w)
              | Inr keyPem \<Rightarrow>
                  write_key_and_chain nkf keyPem (map cert_toString_pem (certificateChain key)) w))))"

fun certs_of :: "der list \<Rightarrow> error + certificate list" where
  "certs_of [] = Inr []"
| "certs_of (certPem # rest) =
     bind_result (X509Certificate certPem) (\<lambda>cert.
     bind_result (certs_of rest) (\<lambda>certs. Inr (cert # certs)))"

text \<open>
  \<open>loadNodeKey\<close> reads the two files and changes nothing. The first certificate of the
  file is the key's certificate; the chain is built from it over the remaining ones.
  With no certificate in the file, \<^verbatim>\<open>certs[0]\<close> is \<^verbatim>\<open>undefined\<close> and the builder throws.
\<close>

definition loadNodeKey ::
  "string \<Rightarrow> string \<Rightarrow> algorithm option \<Rightarrow> key_files option \<Rightarrow> world \<Rightarrow> error + node_key" where
  "loadNodeKey nodeId keysDir algo nodeKeyFiles w =
     (if nodeId = [] then Inl (Error MissingArgumentError ''nodeId is required'')
      else if keysDir = [] then Inl (Error MissingArgumentError ''keysDir is required'')
      else if algo = None then Inl (Error MissingArgumentError ''algo is required'')
      else (case nodeKeyFiles of
        None \<Rightarrow> Inl (Error MissingArgumentError ''nodeKeyFiles.privateKeyFile is required'')
      | Some nkf \<Rightarrow>
          if privateKeyFile nkf = []
          then Inl (Error MissingArgumentError ''nodeKeyFiles.privateKeyFile is required'')
          else if certificateFile nkf = []
          then Inl (Error MissingArgumentError ''nodeKeyFiles.certificateFile is required'')
          else
            bind_result (readFileSync (privateKeyFile nkf) w) (\<lambda>keyPem.
            bind_result (convertPemToPrivateKey keyPem algo [''sign'']) (\<lambda>key.
            bind_result (readFileSync (certificateFile nkf) w) (\<lambda>certBytes.
            bind_result (certs_of (PemConverter_decode certBytes)) (\<lambda>certs.
              (case certs of
                [] \<Rightarrow> Inl (Error CryptoError ''TypeError'')
              | cert # others \<Rightarrow>
                  bind_result (X509ChainBuilder_build others cert) (\<lambda>certChain.
                    Inr \<lparr>privateKey = key, certificate = cert,
                         certificateChain = certChain\<rparr>))))))))"

text \<open>
  The \<^verbatim>\<open>catch\<close> clause of the generators: whatever was thrown becomes a
  \<open>FullstackTestingError\<close> whose message is a prefix and the message of the cause.
\<close>

definition rethrow :: "string \<Rightarrow> error + 'a \<Rightarrow> error + 'a" where
  "rethrow prefix r =
     (case r of Inl e \<Rightarrow> Inl (Error FullstackTestingError (prefix @ message e)) | Inr v \<Rightarrow> Inr v)"

definition generateSigningKey :: "provider \<Rightarrow> nat \<Rightarrow> date \<Rightarrow> string \<Rightarrow> error + node_key" where
  "generateSigningKey prov validityYears curDate nodeId =
     rethrow ''failed to generate signing key: ''
       (let keyPrefix = SIGNING_KEY_PREFIX;
            friendlyName = renderNodeFriendlyName keyPrefix nodeId
        in
          bind_result (generateKey prov SigningKeyAlgo True SigningKeyUsage) (\<lambda>keypair.
          bind_result
            (X509_createSelfSigned ''01'' (''CN='' @ friendlyName) curDate
               (setFullYear curDate (year curDate + validityYears)) keypair
               [BasicConstraintsExtension True 1 True,
                ExtendedKeyUsageExtension [''serverAuth'', ''clientAuth''] True,
                KeyUsagesExtension [keyCertSign, cRLSign] True,
                SubjectKeyIdentifierExtension (pub_id (kp_publicKey keypair)) False]) (\<lambda>cert.
          bind_result (X509ChainBuilder_build [] cert) (\<lambda>certChain.
            Inr \<lparr>privateKey = kp_privateKey keypair, certificate = cert,
                 certificateChain = certChain\<rparr>))))"

definition storeSigningKey :: "string \<Rightarrow> node_key option \<Rightarrow> string \<Rightarrow> key_files io" where
  "storeSigningKey nodeId nodeKey keysDir w =
     (case prepareNodeKeyFilePaths nodeId keysDir SIGNING_KEY_PREFIX of
        Inl e \<Rightarrow> (Inl e, w)
      | Inr nodeKeyFiles \<Rightarrow> storeNodeKey nodeId nodeKey keysDir (Some nodeKeyFiles) w)"

definition loadSigningKey :: "string \<Rightarrow> string \<Rightarrow> world \<Rightarrow> error + node_key" where
  "loadSigningKey nodeId keysDir w =
     bind_result (prepareNodeKeyFilePaths nodeId keysDir SIGNING_KEY_PREFIX) (\<lambda>nodeKeyFiles.
       loadNodeKey nodeId keysDir (Some SigningKeyAlgo) (Some nodeKeyFiles) w)"

text \<open>
  \<open>ecKey\<close>: the argument checks stand before the \<^verbatim>\<open>try\<close>; the error thrown when the
  new certificate does not verify under the signing certificate's public key is thrown
  inside it, and so it is caught and wrapped like every other.
\<close>

definition ecKey ::
  "provider \<Rightarrow> nat \<Rightarrow> date \<Rightarrow> string \<Rightarrow> string \<Rightarrow> node_key option \<Rightarrow> error + node_key" where
  "ecKey prov validityYears curDate nodeId keyPrefix signingKey =
     (if nodeId = [] then Inl (Error MissingArgumentError ''nodeId is required'')
      else if keyPrefix = [] then Inl (Error MissingArgumentError ''keyPrefix is required'')
      else (case signingKey of
        None \<Rightarrow> Inl (Error MissingArgumentError ''no signing key found'')
      | Some sk \<Rightarrow>
          rethrow (''failed to generate '' @ keyPrefix @ ''-key: '')
            (let notAfter = setFullYear curDate (year curDate + validityYears);
                 friendlyName = renderNodeFriendlyName keyPrefix nodeId
             in
               bind_result (generateKey prov ECKeyAlgo True [''sign'', ''verify'']) (\<lambda>keypair.
               bind_result
                 (X509_create ''01'' (''CN='' @ friendlyName) (subject (certificate sk)) curDate
                    notAfter (kp_publicKey keypair) (privateKey sk)
                    [KeyUsagesExtension [digitalSignature, keyEncipherment] False]) (\<lambda>cert.
               if \<not> cert_verify cert (cert_publicKey (certificate sk))
               then Inl (Error FullstackTestingError
                      (''failed to verify generated certificate for '' @ [CHR 0x27] @ friendlyName
                         @ [CHR 0x27]))
               else
                 bind_result (X509ChainBuilder_build [certificate sk] cert) (\<lambda>certChain.
                   Inr \<lparr>privateKey = kp_privateKey keypair, certificate = cert,
                        certificateChain = certChain\<rparr>))))))"

definition generateAgreementKey ::
  "provider \<Rightarrow> nat \<Rightarrow> date \<Rightarrow> string \<Rightarrow> node_key option \<Rightarrow> error + node_key" where
  "generateAgreementKey prov validityYears curDate nodeId signingKey =
     ecKey prov validityYears curDate nodeId AGREEMENT_KEY_PREFIX signingKey"

definition storeAgreementKey :: "string \<Rightarrow> node_key option \<Rightarrow> string \<Rightarrow> key_files io" where
  "storeAgreementKey nodeId nodeKey keysDir w =
     (case prepareNodeKeyFilePaths nodeId keysDir AGREEMENT_KEY_PREFIX of
        Inl e \<Rightarrow> (Inl e, w)
      | Inr nodeKeyFiles \<Rightarrow> storeNodeKey nodeId nodeKey keysDir (Some nodeKeyFiles) w)"

definition loadAgreementKey :: "string \<Rightarrow> string \<Rightarrow> world \<Rightarrow> error + node_key" where
  "loadAgreementKey nodeId keysDir w =
     bind_result (prepareNodeKeyFilePaths nodeId keysDir AGREEMENT_KEY_PREFIX) (\<lambda>nodeKeyFiles.
       loadNodeKey nodeId keysDir (Some ECKeyAlgo) (Some nodeKeyFiles) w)"

text \<open>
  \<open>generateGrpcTLSKey\<close>: a distinguished name that the caller leaves out is
  \<^verbatim>\<open>CN=<nodeId>\<close>; an empty one is refused.
\<close>

definition generateGrpcTLSKey ::
  "provider \<Rightarrow> nat \<Rightarrow> date \<Rightarrow> string \<Rightarrow> string option \<Rightarrow> error + node_key" where
  "generateGrpcTLSKey prov validityYears curDate nodeId dn =
     (let distinguishedName = (case dn of None \<Rightarrow> ''CN='' @ nodeId | Some n \<Rightarrow> n) in
      if nodeId = [] then Inl (Error MissingArgumentError ''nodeId is required'')
      else if distinguishedName = []
      then Inl (Error MissingArgumentError ''distinguishedName is required'')
      else
        rethrow ''failed to generate gRPC TLS key: ''
          (bind_result (generateKey prov TLSKeyAlgo True TLSKeyUsage) (\<lambda>keypair.
           bind_result
             (X509_createSelfSigned ''01'' distinguishedName curDate
                (setFullYear curDate (year curDate + validityYears)) keypair
                [BasicConstraintsExtension False 0 True,
                 KeyUsagesExtension [digitalSignature, keyEncipherment, dataEncipherment] True,
                 ExtendedKeyUsageExtension [''serverAuth'', ''clientAuth''] True,
                 SubjectKeyIdentifierExtension (pub_id (kp_publicKey keypair)) False,
                 AuthorityKeyIdentifierExtension (pub_id (kp_publicKey keypair)) False]) (\<lambda>cert.
           bind_result (X509ChainBuilder_build [] cert) (\<lambda>certChain.
             Inr \<lparr>privateKey = kp_privateKey keypair, certificate = cert,
                  certificateChain = certChain\<rparr>)))))"

definition storeTLSKey :: "string \<Rightarrow> node_key option \<Rightarrow> string \<Rightarrow> key_files io" where
  "storeTLSKey nodeId nodeKey keysDir w =
     (case prepareTLSKeyFilePaths nodeId keysDir of
        Inl e \<Rightarrow> (Inl e, w)
      | Inr nodeKeyFiles \<Rightarrow> storeNodeKey nodeId nodeKey keysDir (Some nodeKeyFiles) w)"

definition loadTLSKey :: "string \<Rightarrow> string \<Rightarrow> world \<Rightarrow> error + node_key" where
  "loadTLSKey nodeId keysDir w =
     bind_result (prepareTLSKeyFilePaths nodeId keysDir) (\<lambda>nodeKeyFiles.
       loadNodeKey nodeId keysDir (Some TLSKeyAlgo) (Some nodeKeyFiles) w)"

section \<open>key_manager.mjs: PKCS#12 keys\<close>

text \<open>
  Modelled from the spec: the class \<^verbatim>\<open>Keytool\<close> (\<^verbatim>\<open>core/keytool.mjs\<close>) is missing from
  the sources. The specification has the key tool invoked as discrete keystore
  operations (generate key pair, certificate signing request, sign certificate, import
  and export certificate), each a synchronous external call whose non-zero exit is a
  fatal error for the enclosing key operation. A key tool is a parameter: for a run and
  the files it finds, it either fails or yields the new content of the one file the
  run writes. That file is the keystore for \<^verbatim>\<open>-genkeypair\<close> and \<^verbatim>\<open>-importcert\<close>, and the
  output file for \<^verbatim>\<open>-certreq\<close>, \<^verbatim>\<open>-gencert\<close> and \<^verbatim>\<open>-exportcert\<close>. Every run is logged.
\<close>

type_synonym keytool = "keytool_call \<Rightarrow> (string \<Rightarrow> content option) \<Rightarrow> content option"

definition keytool_target :: "keytool_call \<Rightarrow> string" where
  "keytool_target call = (case kt_outfile call of Some f \<Rightarrow> f | None \<Rightarrow> kt_keystore call)"

definition keytool_run :: "keytool \<Rightarrow> keytool_call \<Rightarrow> unit io" where
  "keytool_run kt call w =
     (let w1 = w\<lparr>keytool_log := keytool_log w @ [call]\<rparr> in
      case kt call (files w) of
        None \<Rightarrow> (Inl (Error KeytoolError ''keytool exited with an error''), w1)
      | Some c \<Rightarrow> (Inr (), w1\<lparr>files := (files w)(keytool_target call \<mapsto> c)\<rparr>))"

text \<open>
  \<open>getTmpDir\<close> of \<^verbatim>\<open>helpers.mjs\<close> makes a new directory with \<^verbatim>\<open>fs.mkdtempSync\<close>. It is
  the default value of the parameter \<open>tmpDir\<close>, computed when the caller leaves the
  argument out (\<open>None\<close>), before the body of the function runs.
\<close>

definition getTmpDir :: "world \<Rightarrow> string \<times> world" where
  "getTmpDir w =
     (let d = ''/tmp/solo-'' @ show_nat (tmp_seq w)
      in (d, w\<lparr>dirs := insert d (dirs w), tmp_seq := Suc (tmp_seq w)\<rparr>))"

definition tmpDir_or_default :: "string option \<Rightarrow> world \<Rightarrow> string \<times> world" where
  "tmpDir_or_default tmpDir w = (case tmpDir of None \<Rightarrow> getTmpDir w | Some d \<Rightarrow> (d, w))"

definition signed_key_steps :: "keytool \<Rightarrow> nat \<Rightarrow> string \<Rightarrow> string \<Rightarrow> string \<Rightarrow> string \<Rightarrow> string \<Rightarrow> unit io" where
  "signed_key_steps kt validity nodeId tmpDir tmpPrivatePfxFile signedKeyAlias keyPrefix =
     (let certReqFile = path_join tmpDir (nodeId @ ''-cert-req-'' @ keyPrefix @ ''.pfx'');
          certFile = path_join tmpDir (nodeId @ ''-signed-cert-'' @ keyPrefix @ ''.pfx'');
          keyAlias = keyPrefix @ ''-'' @ nodeId
      in
        io_bind (keytool_run kt
          \<lparr>kt_cmd = GenKeyPair, kt_alias = keyAlias, kt_keystore = tmpPrivatePfxFile,
           kt_infile = None, kt_outfile = None,
           kt_options = [''-storetype pkcs12'', ''-storepass password'', ''-dname cn='' @ keyAlias,
             ''-keyalg ec'', ''-sigalg SHA384withECDSA'', ''-groupname secp384r1'',
             ''-validity '' @ show_nat validity]\<rparr>) (\<lambda>u.
        io_bind (keytool_run kt
          \<lparr>kt_cmd = CertReq, kt_alias = keyAlias, kt_keystore = tmpPrivatePfxFile,
           kt_infile = None, kt_outfile = Some certReqFile,
           kt_options = [''-storetype pkcs12'', ''-storepass password'']\<rparr>) (\<lambda>u.
        io_bind (keytool_run kt
          \<lparr>kt_cmd = GenCert, kt_alias = signedKeyAlias, kt_keystore = tmpPrivatePfxFile,
           kt_infile = Some certReqFile, kt_outfile = Some certFile,
           kt_options = [''-storetype pkcs12'', ''-storepass password'',
             ''-validity '' @ show_nat validity]\<rparr>) (\<lambda>u.
        keytool_run kt
          \<lparr>kt_cmd = ImportCert, kt_alias = keyAlias, kt_keystore = tmpPrivatePfxFile,
           kt_infile = Some certFile, kt_outfile = None,
           kt_options = [''-storetype pkcs12'', ''-storepass password'']\<rparr>))))"

definition generatePrivatePfxKeys ::
  "keytool option \<Rightarrow> nat \<Rightarrow> string \<Rightarrow> string \<Rightarrow> string option \<Rightarrow> string io" where
  "generatePrivatePfxKeys keytool validityYears nodeId keysDir tmpDirArg w0 =
     (case tmpDir_or_default tmpDirArg w0 of (tmpDir, w) \<Rightarrow>
       (case keytool of
          None \<Rightarrow> (Inl (Error MissingArgumentError ''An instance of core/Keytool is required''), w)
        | Some kt \<Rightarrow>
            if nodeId = [] then (Inl (Error MissingArgumentError ''nodeId is required''), w)
            else if keysDir = [] then (Inl (Error MissingArgumentError ''keysDir is required''), w)
            else if \<not> existsSync keysDir w
            then (Inl (Error MissingArgumentError ''keysDir does not exist''), w)
            else
              (let privatePfxFile = path_join keysDir (''private-'' @ nodeId @ ''.pfx'') in
               if existsSync privatePfxFile w then (Inr privatePfxFile, w)
               else
                 (let validity = validityYears * 365;
                      tmpPrivatePfxFile = path_join tmpDir (''private-'' @ nodeId @ ''.pfx'');
                      signedKeyAlias = SIGNING_KEY_PREFIX @ ''-'' @ nodeId
                  in
                    io_bind (keytool_run kt
                      \<lparr>kt_cmd = GenKeyPair, kt_alias = signedKeyAlias,
                       kt_keystore = tmpPrivatePfxFile, kt_infile = None, kt_outfile = None,
                       kt_options = [''-storetype pkcs12'', ''-storepass password'',
                         ''-dname cn=s-'' @ nodeId, ''-keyalg rsa'', ''-sigalg SHA384withRSA'',
                         ''-keysize 3072'', ''-validity '' @ show_nat validity]\<rparr>) (\<lambda>u.
                    io_bind (io_foreach
                      (signed_key_steps kt validity nodeId tmpDir tmpPrivatePfxFile signedKeyAlias)
                      [AGREEMENT_KEY_PREFIX, ENCRYPTION_KEY_PREFIX]) (\<lambda>u.
                    io_bind (cpSync tmpPrivatePfxFile privatePfxFile) (\<lambda>u.
                    io_return privatePfxFile))) w))))"




section \<open>helpers.mjs: account identifiers\<close>

text \<open>
  \<^verbatim>\<open>constants.HEDERA_NODE_ACCOUNT_ID_START\<close> is declared outside the sources at hand; it
  is a parameter of the model: an account identifier with its \<open>realm\<close>, \<open>shard\<close> and
  \<open>num\<close> components.
\<close>

record account_id =
  realm :: nat
  shard :: nat
  num :: nat

text \<open>The template \<^verbatim>\<open>`${realm}.${shard}.${accountId++}`\<close>.\<close>

definition render_account :: "account_id \<Rightarrow> nat \<Rightarrow> string" where
  "render_account start accountId =
     show_nat (realm start) @ ''.'' @ show_nat (shard start) @ ''.'' @ show_nat accountId"

text \<open>
  A JavaScript \<open>Map\<close> keeps its keys in insertion order, and \<open>set\<close> on a key that is
  present replaces the value in place: an association list under \<open>AList.update\<close>.
  The \<open>forEach\<close> loop of \<open>getNodeAccountMap\<close> carries the counter \<open>accountId\<close> and
  the map built so far.
\<close>

fun getNodeAccountMap_loop ::
  "account_id \<Rightarrow> nat \<Rightarrow> string list \<Rightarrow> (string \<times> string) list \<Rightarrow> (string \<times> string) list" where
  "getNodeAccountMap_loop start accountId [] accountMap = accountMap"
| "getNodeAccountMap_loop start accountId (nodeID # rest) accountMap =
     getNodeAccountMap_loop start (accountId + 1) rest
       (AList.update nodeID (render_account start accountId) accountMap)"

definition getNodeAccountMap :: "account_id \<Rightarrow> string list \<Rightarrow> (string \<times> string) list" where
  "getNodeAccountMap start nodeIDs = getNodeAccountMap_loop start (num start) nodeIDs []"

section \<open>helpers.mjs: backups\<close>

text \<open>
  \<open>createBackupDir\<close> names the directory after the date: the year, then the values of
  \<^verbatim>\<open>getMonth()\<close>, \<^verbatim>\<open>getDate()\<close>, \<^verbatim>\<open>getHours()\<close>, \<^verbatim>\<open>getMinutes()\<close> and \<^verbatim>\<open>getSeconds()\<close>,
  each of these padded to two digits. The file map is a \<open>Map\<close> from source path to
  destination path; \<open>makeBackup\<close> walks its entries in their order. The parameters
  \<open>curDate\<close> and \<open>dirPrefix\<close> of the three backup functions have defaults (the current
  time; \<^verbatim>\<open>gossip-pfx\<close>, \<^verbatim>\<open>tls\<close>, \<^verbatim>\<open>gossip-pem\<close>); the model takes them as given.
\<close>

definition padStart2 :: "string \<Rightarrow> string" where
  "padStart2 s = replicate (2 - length s) (CHR ''0'') @ s"

definition createBackupDir :: "string \<Rightarrow> string \<Rightarrow> date \<Rightarrow> world \<Rightarrow> string \<times> world" where
  "createBackupDir destDir prefix curDate w =
     (let dateDir = show_nat (year curDate) @ padStart2 (show_nat (month curDate))
            @ padStart2 (show_nat (day curDate)) @ ''_'' @ padStart2 (show_nat (hours curDate))
            @ padStart2 (show_nat (minutes curDate)) @ padStart2 (show_nat (seconds curDate));
          backupDir = path_join (path_join destDir prefix) dateDir
      in (backupDir, if \<not> existsSync backupDir w then mkdirSync backupDir w else w))"

fun makeBackup :: "(string \<times> string) list \<Rightarrow> bool \<Rightarrow> unit io" where
  "makeBackup [] removeOld = io_return ()"
| "makeBackup ((srcPath, destPath) # rest) removeOld =
     io_bind
       (\<lambda>w. if existsSync srcPath w
             then io_bind (cpSync srcPath destPath)
                    (\<lambda>u. if removeOld then rmSync srcPath else io_return ()) w
             else (Inr (), w))
       (\<lambda>u. makeBackup rest removeOld)"

definition backupOldPfxKeys :: "string list \<Rightarrow> string \<Rightarrow> date \<Rightarrow> string \<Rightarrow> string io" where
  "backupOldPfxKeys nodeIds keysDir curDate dirPrefix w =
     (case createBackupDir keysDir (''unused-'' @ dirPrefix) curDate w of (backupDir, w1) \<Rightarrow>
       (let fileMap = fold (\<lambda>nodeId.
              AList.update (path_join keysDir (''private-'' @ nodeId @ ''.pfx''))
                (path_join backupDir (''private-'' @ nodeId @ ''.pfx''))) nodeIds [];
            fileMap' = AList.update (path_join keysDir ''public.pfx'')
                (path_join backupDir ''public.pfx'') fileMap
        in io_bind (makeBackup fileMap' True) (\<lambda>u. io_return backupDir) w1))"

definition backupOldTlsKeys :: "string list \<Rightarrow> string \<Rightarrow> date \<Rightarrow> string \<Rightarrow> string io" where
  "backupOldTlsKeys nodeIds keysDir curDate dirPrefix w =
     (case createBackupDir keysDir (''unused-'' @ dirPrefix) curDate w of (backupDir, w1) \<Rightarrow>
       (let fileMap = fold (\<lambda>nodeId.
              AList.update (path_join keysDir (renderTLSPemPrivateKeyFile nodeId))
                (path_join backupDir (renderTLSPemPrivateKeyFile nodeId))) nodeIds []
        in io_bind (makeBackup fileMap True) (\<lambda>u. io_return backupDir) w1))"

text \<open>
  \<open>backupOldPemKeys\<close> calls \<^verbatim>\<open>Templates.renderGossipPemPrivateKeyFile(nodeId)\<close> with the
  node identifier as its only argument: the identifier stands where the prefix
  belongs, and the second parameter is \<^verbatim>\<open>undefined\<close>.
\<close>

definition backupOldPemKeys :: "string list \<Rightarrow> string \<Rightarrow> date \<Rightarrow> string \<Rightarrow> string io" where
  "backupOldPemKeys nodeIds keysDir curDate dirPrefix w =
     (case createBackupDir keysDir (''unused-'' @ dirPrefix) curDate w of (backupDir, w1) \<Rightarrow>
       (let fileMap = fold (\<lambda>nodeId.
              AList.update (path_join keysDir (renderGossipPemPrivateKeyFile (Some nodeId) None))
                (path_join backupDir (renderGossipPemPrivateKeyFile (Some nodeId) None))) nodeIds []
        in io_bind (makeBackup fileMap True) (\<lambda>u. io_return backupDir) w1))"

section \<open>Lifecycle operations: key material\<close>

text \<open>
  Modelled from the spec: the node lifecycle orchestrator (\<^verbatim>\<open>commands/node.mjs\<close>) is
  missing from the sources; only its end-to-end test is there. The specification has
  Add validate that the proposed node name is not already present and then generate
  signing, agreement and TLS key material for the new node only; Update follows the
  same skeleton and may regenerate only the targeted node's keys. The test runs with
  PEM keys and the flags \<^verbatim>\<open>generateGossipKeys\<close> and \<^verbatim>\<open>generateTlsKeys\<close>. The model is
  this key step, built from the generators and stores of \<^verbatim>\<open>key_manager.mjs\<close>; the steps
  that follow it (topology, staging on the pods, freeze, restart, polling) act on the
  cluster and are not modelled.
\<close>

datatype lifecycle_operation = Add | Update





section \<open>Auxiliary notions\<close>

text \<open>
  An action grows the file system when it removes no file and leaves the directories
  as they are. \<open>keeps p\<close> says that an action leaves the file \<open>p\<close> as it is.
\<close>

definition grows :: "'a io \<Rightarrow> bool" where
  "grows m =
     (\<forall>w. dirs (snd (m w)) = dirs w \<and> (\<forall>p. files w p \<noteq> None \<longrightarrow> files (snd (m w)) p \<noteq> None))"


section \<open>Concrete values for the examples\<close>

text \<open>
  An in-memory key tool for concrete runs: a keystore is the text of its entries, one
  per alias; a run fails when the keystore or the file it reads is missing.
\<close>

definition fake_keytool :: keytool where
  "fake_keytool call fs =
     (case kt_cmd call of
        GenKeyPair \<Rightarrow>
          Some ((case fs (kt_keystore call) of None \<Rightarrow> [] | Some ks \<Rightarrow> ks)
                @ text_of (''key '' @ kt_alias call @ '';''))
      | CertReq \<Rightarrow>
          (case fs (kt_keystore call) of None \<Rightarrow> None
           | Some ks \<Rightarrow> Some (text_of (''request '' @ kt_alias call)))
      | GenCert \<Rightarrow>
          (case kt_infile call of None \<Rightarrow> None
           | Some f \<Rightarrow> (case fs f of None \<Rightarrow> None
               | Some req \<Rightarrow> Some (text_of (''signed by '' @ kt_alias call @ '': '') @ req)))
      | ImportCert \<Rightarrow>
          (case kt_infile call of None \<Rightarrow> None
           | Some f \<Rightarrow> (case fs f of None \<Rightarrow> None
               | Some cert \<Rightarrow>
                   Some ((case fs (kt_keystore call) of None \<Rightarrow> [] | Some ks \<Rightarrow> ks)
                         @ text_of (''cert '' @ kt_alias call @ '';''))))
      | ExportCert \<Rightarrow>
          (case fs (kt_keystore call) of None \<Rightarrow> None
           | Some ks \<Rightarrow> Some (text_of (''cert of '' @ kt_alias call))))"

definition world_with_pfx :: world where
  "world_with_pfx =
     \<lparr>files = [''keys/private-node0.pfx'' \<mapsto> text_of ''key s-node0;''],
      dirs = {''keys''}, keytool_log = [], tmp_seq = 0\<rparr>"

definition world_without_pfx :: world where
  "world_without_pfx = \<lparr>files = Map.empty, dirs = {''keys''}, keytool_log = [], tmp_seq = 0\<rparr>"

definition test_date :: date where
  "test_date = \<lparr>year = 2024, month = 2, day = 5, hours = 10, minutes = 11, seconds = 12\<rparr>"

definition test_provider :: provider where
  "test_provider algo =
     (if alg_name algo = ''ECDSA'' then Some 2
      else if alg_modulusLength algo = 3072 then Some 1 else Some 3)"

definition signing_cert0 :: certificate where
  "signing_cert0 =
     \<lparr>serialNumber = ''01'', subject = ''CN=s-node0'', issuer = ''CN=s-node0'',
      notBefore = test_date, notAfter = test_date\<lparr>year := 2124\<rparr>,
      cert_publicKey = \<lparr>pub_id = 1, pub_type = RSA 3072\<rparr>,
      extensions = [BasicConstraintsExtension True 1 True,
        ExtendedKeyUsageExtension [''serverAuth'', ''clientAuth''] True,
        KeyUsagesExtension [keyCertSign, cRLSign] True,
        SubjectKeyIdentifierExtension 1 False],
      signed_by = 1\<rparr>"

definition signing_key0 :: node_key where
  "signing_key0 =
     \<lparr>privateKey = \<lparr>priv_id = 1, priv_type = RSA 3072, extractable = True, usages = [''sign'']\<rparr>,
      certificate = signing_cert0, certificateChain = [signing_cert0]\<rparr>"

definition agreement_cert0 :: certificate where
  "agreement_cert0 =
     \<lparr>serialNumber = ''01'', subject = ''CN=a-node0'', issuer = ''CN=s-node0'',
      notBefore = test_date, notAfter = test_date\<lparr>year := 2124\<rparr>,
      cert_publicKey = \<lparr>pub_id = 2, pub_type = EC ''P-384''\<rparr>,
      extensions = [KeyUsagesExtension [digitalSignature, keyEncipherment] False],
      signed_by = 1\<rparr>"

definition agreement_key0 :: node_key where
  "agreement_key0 =
     \<lparr>privateKey = \<lparr>priv_id = 2, priv_type = EC ''P-384'', extractable = True, usages = [''sign'']\<rparr>,
      certificate = agreement_cert0, certificateChain = [agreement_cert0, signing_cert0]\<rparr>"




text \<open>A world whose signing key file is a bundle: a certificate first, the key last.\<close>

definition signing_files0 :: key_files where
  "signing_files0 =
     \<lparr>privateKeyFile = ''keys/s-private-node0.pem'', certificateFile = ''keys/s-public-node0.pem''\<rparr>"

definition world_with_bundle :: world where
  "world_with_bundle =
     \<lparr>files = [''keys/s-private-node0.pem'' \<mapsto>
          [Pem ''CERTIFICATE'' (X509 signing_cert0), Chr (CHR 0x0A),
           Pem ''PRIVATE KEY'' (Pkcs8 1 (RSA 3072)), Chr (CHR 0x0A)],
        ''keys/s-public-node0.pem'' \<mapsto> [Pem ''CERTIFICATE'' (X509 signing_cert0), Chr (CHR 0x0A)]],
      dirs = {''keys''}, keytool_log = [], tmp_seq = 0\<rparr>"


text \<open>A keys directory with the PEM and TLS private keys of node0.\<close>

definition world_pem_keys :: world where
  "world_pem_keys =
     \<lparr>files = [''keys/s-private-node0.pem'' \<mapsto> [Pem ''PRIVATE KEY'' (Pkcs8 1 (RSA 3072))],
        ''keys/a-private-node0.pem'' \<mapsto> [Pem ''PRIVATE KEY'' (Pkcs8 2 (EC ''P-384''))],
        ''keys/hedera-node0.key'' \<mapsto> [Pem ''PRIVATE KEY'' (Pkcs8 3 (RSA 4096))]],
      dirs = {''keys''}, keytool_log = [], tmp_seq = 0\<rparr>"


section \<open>Properties of the PKCS#12 functions\<close>

lemma existsSync_tmpDir_or_default:
  "existsSync p w \<Longrightarrow> existsSync p (snd (tmpDir_or_default t w))"
  by (auto simp: existsSync_def tmpDir_or_default_def getTmpDir_def Let_def split: option.splits)

lemma tmpDir_or_default_simps:
  "files (snd (tmpDir_or_default t w)) = files w"
  "keytool_log (snd (tmpDir_or_default t w)) = keytool_log w"
  "tmpDir_or_default (Some d) w = (d, w)"
  by (auto simp: tmpDir_or_default_def getTmpDir_def Let_def split: option.splits)

lemma growsD:
  "grows m \<Longrightarrow> m w = (r, w') \<Longrightarrow> existsSync p w \<Longrightarrow> existsSync p w'"
  unfolding grows_def existsSync_def
  by (metis snd_conv)

lemma grows_return [simp]: "grows (io_return x)"
  by (simp add: grows_def io_return_def)

lemma grows_bind:
  "grows m \<Longrightarrow> (\<And>x. grows (f x)) \<Longrightarrow> grows (io_bind m f)"
  unfolding grows_def io_bind_def
  apply (intro allI)
  subgoal for w
    apply (cases "m w")
    subgoal for r w'
      apply (cases r)
       apply (metis (mono_tags, lifting) old.sum.simps(5) snd_conv split_conv)
      apply (simp)
      by (metis snd_conv)
    done
  done

lemma grows_foreach:
  "(\<And>x. grows (body x)) \<Longrightarrow> grows (io_foreach body xs)"
  by (induction xs) (auto intro: grows_bind)

lemma grows_keytool_run [simp]: "grows (keytool_run kt call)"
  by (auto simp: grows_def keytool_run_def Let_def split: option.splits)

lemma grows_cpSync [simp]: "grows (cpSync src dest)"
  by (auto simp: grows_def cpSync_def split: option.splits)

lemma grows_signed_key_steps [simp]:
  "grows (signed_key_steps kt validity nodeId tmpDir tmpPrivatePfxFile signedKeyAlias keyPrefix)"
  by (simp add: signed_key_steps_def Let_def grows_bind)

lemma io_bind_Inr:
  "io_bind m f w = (Inr y, w') \<longleftrightarrow> (\<exists>x wm. m w = (Inr x, wm) \<and> f x wm = (Inr y, w'))"
  by (auto simp: io_bind_def split: prod.splits sum.splits)

lemma cpSync_Inr:
  "cpSync src dest w = (Inr u, w') \<Longrightarrow> files w' dest \<noteq> None"
  by (auto simp: cpSync_def split: option.splits if_splits)

lemma generatePrivatePfxKeys_existing:
  assumes "nodeId \<noteq> []" "keysDir \<noteq> []" "existsSync keysDir w"
    "existsSync (path_join keysDir (''private-'' @ nodeId @ ''.pfx'')) w"
  shows "generatePrivatePfxKeys (Some kt) validityYears nodeId keysDir tmpDirArg w =
      (Inr (path_join keysDir (''private-'' @ nodeId @ ''.pfx'')),
       snd (tmpDir_or_default tmpDirArg w))"
proof -
  obtain tmpDir w1 where t: "tmpDir_or_default tmpDirArg w = (tmpDir, w1)"
    by (cases "tmpDir_or_default tmpDirArg w")
  have "existsSync keysDir w1"
    "existsSync (path_join keysDir (''private-'' @ nodeId @ ''.pfx'')) w1"
    using assms(3,4) existsSync_tmpDir_or_default [of _ w tmpDirArg] t by auto
  then show ?thesis
    using assms(1,2) t by (simp add: generatePrivatePfxKeys_def Let_def)
qed

lemma generatePrivatePfxKeys_success:
  assumes ok: "generatePrivatePfxKeys keytool validityYears nodeId keysDir tmpDirArg w = (Inr p, w1)"
  shows "keytool \<noteq> None \<and> nodeId \<noteq> [] \<and> keysDir \<noteq> [] \<and> existsSync keysDir w1 \<and>
    p = path_join keysDir (''private-'' @ nodeId @ ''.pfx'') \<and> existsSync p w1"
proof -
  obtain tmpDir w0 where t: "tmpDir_or_default tmpDirArg w = (tmpDir, w0)"
    by (cases "tmpDir_or_default tmpDirArg w")
  obtain kt where kt: "keytool = Some kt"
    using ok t by (cases keytool) (auto simp: generatePrivatePfxKeys_def)
  have args: "nodeId \<noteq> []" "keysDir \<noteq> []" "existsSync keysDir w0"
    using ok t kt by (auto simp: generatePrivatePfxKeys_def split: if_splits)
  let ?pfx = "path_join keysDir (''private-'' @ nodeId @ ''.pfx'')"
  let ?tmp = "path_join tmpDir (''private-'' @ nodeId @ ''.pfx'')"
  show ?thesis
  proof (cases "existsSync ?pfx w0")
    case True
    then show ?thesis
      using ok t kt args by (auto simp: generatePrivatePfxKeys_def Let_def)
  next
    case False
    let ?A = "keytool_run kt
        \<lparr>kt_cmd = GenKeyPair, kt_alias = SIGNING_KEY_PREFIX @ ''-'' @ nodeId,
         kt_keystore = ?tmp, kt_infile = None, kt_outfile = None,
         kt_options = [''-storetype pkcs12'', ''-storepass password'',
           ''-dname cn=s-'' @ nodeId, ''-keyalg rsa'', ''-sigalg SHA384withRSA'',
           ''-keysize 3072'', ''-validity '' @ show_nat (validityYears * 365)]\<rparr>"
    let ?B = "io_foreach
        (signed_key_steps kt (validityYears * 365) nodeId tmpDir ?tmp (SIGNING_KEY_PREFIX @ ''-'' @ nodeId))
        [AGREEMENT_KEY_PREFIX, ENCRYPTION_KEY_PREFIX]"
    have run: "io_bind ?A (\<lambda>u. io_bind ?B (\<lambda>u. io_bind (cpSync ?tmp ?pfx) (\<lambda>u. io_return ?pfx))) w0
        = (Inr p, w1)"
      using ok t kt args False by (simp add: generatePrivatePfxKeys_def Let_def)
    then obtain wa wb wc where
      a: "?A w0 = (Inr (), wa)" and b: "?B wa = (Inr (), wb)"
      and c: "cpSync ?tmp ?pfx wb = (Inr (), wc)" and r: "io_return ?pfx wc = (Inr p, w1)"
      by (auto simp: io_bind_Inr)
    have p: "p = ?pfx" and w1: "w1 = wc"
      using r by (auto simp: io_return_def)
    have "existsSync keysDir wa"
      using growsD [OF grows_keytool_run a] args(3) .
    then have "existsSync keysDir wb"
      using growsD [OF grows_foreach b] by simp
    then have dir: "existsSync keysDir wc"
      using growsD [OF grows_cpSync c] by simp
    have "existsSync ?pfx wc"
      using cpSync_Inr [OF c] by (simp add: existsSync_def)
    then show ?thesis
      using kt args dir p w1 by simp
  qed
qed

text \<open>
  Claim C3. When \<^verbatim>\<open>private-<nodeId>.pfx\<close> exists in the keys directory (and the node
  identifier and the directory pass the argument checks), \<open>generatePrivatePfxKeys\<close>
  returns the path of that file, runs the key tool not once and writes no file: with
  \<open>tmpDir\<close> given the world is left exactly as it was, and with \<open>tmpDir\<close> left out the
  files and the log of key tool runs are. A call that follows a successful call for
  the same node finds the file and is such a call.
\<close>

theorem generatePrivatePfxKeys_existing_noop:
  "(nodeId \<noteq> [] \<and> keysDir \<noteq> [] \<and> existsSync keysDir w \<and>
    existsSync (path_join keysDir (''private-'' @ nodeId @ ''.pfx'')) w \<longrightarrow>
      generatePrivatePfxKeys (Some kt) validityYears nodeId keysDir (Some tmpDir) w =
        (Inr (path_join keysDir (''private-'' @ nodeId @ ''.pfx'')), w) \<and>
      fst (generatePrivatePfxKeys (Some kt) validityYears nodeId keysDir None w) =
        Inr (path_join keysDir (''private-'' @ nodeId @ ''.pfx'')) \<and>
      files (snd (generatePrivatePfxKeys (Some kt) validityYears nodeId keysDir None w)) = files w \<and>
      keytool_log (snd (generatePrivatePfxKeys (Some kt) validityYears nodeId keysDir None w)) =
        keytool_log w) \<and>
   (generatePrivatePfxKeys keytool validityYears nodeId keysDir tmpDirArg w = (Inr p, w1) \<longrightarrow>
      generatePrivatePfxKeys (Some kt') validityYears' nodeId keysDir (Some tmpDir') w1 = (Inr p, w1))"
proof (intro conjI impI)
  assume a: "nodeId \<noteq> [] \<and> keysDir \<noteq> [] \<and> existsSync keysDir w \<and>
    existsSync (path_join keysDir (''private-'' @ nodeId @ ''.pfx'')) w"
  note ex = generatePrivatePfxKeys_existing [of nodeId keysDir w kt validityYears]
  show "generatePrivatePfxKeys (Some kt) validityYears nodeId keysDir (Some tmpDir) w =
      (Inr (path_join keysDir (''private-'' @ nodeId @ ''.pfx'')), w)"
    using a ex [of "Some tmpDir"] by (simp add: tmpDir_or_default_simps)
  show "fst (generatePrivatePfxKeys (Some kt) validityYears nodeId keysDir None w) =
      Inr (path_join keysDir (''private-'' @ nodeId @ ''.pfx''))"
    using a ex [of None] by simp
  show "files (snd (generatePrivatePfxKeys (Some kt) validityYears nodeId keysDir None w)) = files w"
    using a ex [of None] by (simp add: tmpDir_or_default_simps)
  show "keytool_log (snd (generatePrivatePfxKeys (Some kt) validityYears nodeId keysDir None w)) =
      keytool_log w"
    using a ex [of None] by (simp add: tmpDir_or_default_simps)
next
  assume first: "generatePrivatePfxKeys keytool validityYears nodeId keysDir tmpDirArg w = (Inr p, w1)"
  have s: "nodeId \<noteq> []" "keysDir \<noteq> []" "existsSync keysDir w1"
    "p = path_join keysDir (''private-'' @ nodeId @ ''.pfx'')" "existsSync p w1"
    using generatePrivatePfxKeys_success [OF first] by auto
  show "generatePrivatePfxKeys (Some kt') validityYears' nodeId keysDir (Some tmpDir') w1 = (Inr p, w1)"
    using generatePrivatePfxKeys_existing [of nodeId keysDir w1 kt' validityYears' "Some tmpDir'"] s
    by (simp add: tmpDir_or_default_simps)
qed

theorem generatePrivatePfxKeys_existing_noop_witness:
  "existsSync ''keys'' world_with_pfx \<and>
   existsSync (path_join ''keys'' (''private-'' @ ''node0'' @ ''.pfx'')) world_with_pfx \<and>
   generatePrivatePfxKeys (Some fake_keytool) 100 ''node0'' ''keys'' (Some ''tmp'') world_with_pfx =
     (Inr ''keys/private-node0.pfx'', world_with_pfx) \<and>
   keytool_log (snd (generatePrivatePfxKeys (Some fake_keytool) 100 ''node0'' ''keys'' None
     world_with_pfx)) = [] \<and>
   fst (generatePrivatePfxKeys (Some fake_keytool) 100 ''node0'' ''keys'' (Some ''tmp'')
     world_without_pfx) = Inr ''keys/private-node0.pfx'' \<and>
   generatePrivatePfxKeys (Some fake_keytool) 100 ''node0'' ''keys'' (Some ''tmp'')
     (snd (generatePrivatePfxKeys (Some fake_keytool) 100 ''node0'' ''keys'' (Some ''tmp'')
       world_without_pfx)) =
     (Inr ''keys/private-node0.pfx'',
      snd (generatePrivatePfxKeys (Some fake_keytool) 100 ''node0'' ''keys'' (Some ''tmp'')
       world_without_pfx))"
proof -
  let ?first = "generatePrivatePfxKeys (Some fake_keytool) 100 ''node0'' ''keys'' (Some ''tmp'')
     world_without_pfx"
  have run: "fst ?first = Inr ''keys/private-node0.pfx''"
    by (simp add: generatePrivatePfxKeys_def tmpDir_or_default_def existsSync_def path_join_def
        world_without_pfx_def Let_def io_bind_def io_return_def keytool_run_def keytool_target_def
        fake_keytool_def signed_key_steps_def cpSync_def SIGNING_KEY_PREFIX_def
        AGREEMENT_KEY_PREFIX_def ENCRYPTION_KEY_PREFIX_def text_of_def)
  then have first: "?first = (Inr ''keys/private-node0.pfx'', snd ?first)"
    by (metis prod.collapse)
  have pre: "existsSync ''keys'' world_with_pfx"
    "existsSync (path_join ''keys'' (''private-'' @ ''node0'' @ ''.pfx'')) world_with_pfx"
    by (simp_all add: existsSync_def path_join_def world_with_pfx_def)
  have twice: "generatePrivatePfxKeys (Some fake_keytool) 100 ''node0'' ''keys'' (Some ''tmp'')
      (snd ?first) = (Inr ''keys/private-node0.pfx'', snd ?first)"
    using generatePrivatePfxKeys_existing_noop
      [where keytool = "Some fake_keytool" and validityYears = 100 and nodeId = "''node0''"
         and keysDir = "''keys''" and tmpDirArg = "Some ''tmp''" and w = world_without_pfx
         and p = "''keys/private-node0.pfx''" and ?w1.0 = "snd ?first" and kt' = fake_keytool
         and validityYears' = 100 and tmpDir' = "''tmp''"]
      first
    by blast
  have noop: "generatePrivatePfxKeys (Some fake_keytool) 100 ''node0'' ''keys'' (Some ''tmp'')
        world_with_pfx = (Inr ''keys/private-node0.pfx'', world_with_pfx) \<and>
      keytool_log (snd (generatePrivatePfxKeys (Some fake_keytool) 100 ''node0'' ''keys'' None
        world_with_pfx)) = []"
    using generatePrivatePfxKeys_existing_noop
      [where nodeId = "''node0''" and keysDir = "''keys''" and w = world_with_pfx
         and kt = fake_keytool and validityYears = 100 and tmpDir = "''tmp''"]
      pre
    by (simp add: path_join_def world_with_pfx_def)
  show ?thesis
    using pre run twice noop by blast
qed


























section \<open>Properties of storing and loading PEM keys\<close>

lemma fold_appendFileSync_other:
  "p \<noteq> f \<Longrightarrow> files (fold (\<lambda>c. appendFileSync f (c @ sep)) cs w) p = files w p"
  by (induction cs arbitrary: w) (auto simp: appendFileSync_def)

lemma fold_appendFileSync_same:
  "files (fold (\<lambda>c. appendFileSync f (c @ sep)) cs w) f =
     (if cs = [] then files w f
      else Some ((case files w f of None \<Rightarrow> [] | Some old \<Rightarrow> old) @ concat (map (\<lambda>c. c @ sep) cs)))"
  by (induction cs arbitrary: w) (auto simp: appendFileSync_def split: option.splits)

lemma fold_appendFileSync_rest:
  "dirs (fold (\<lambda>c. appendFileSync f (c @ sep)) cs w) = dirs w"
  "keytool_log (fold (\<lambda>c. appendFileSync f (c @ sep)) cs w) = keytool_log w"
  "tmp_seq (fold (\<lambda>c. appendFileSync f (c @ sep)) cs w) = tmp_seq w"
  by (induction cs arbitrary: w) (auto simp: appendFileSync_def)

lemma write_key_and_chain_result:
  assumes "certificateFile nkf \<notin> dirs w"
  shows "fst (write_key_and_chain nkf keyPem certPems w) = Inr nkf"
    and "files (snd (write_key_and_chain nkf keyPem certPems w)) (certificateFile nkf) =
      (if certPems = [] then None else Some (concat (map (\<lambda>c. c @ newline) certPems)))"
    and "privateKeyFile nkf \<noteq> certificateFile nkf \<Longrightarrow>
      files (snd (write_key_and_chain nkf keyPem certPems w)) (privateKeyFile nkf) = Some keyPem"
    and "p \<noteq> privateKeyFile nkf \<Longrightarrow> p \<noteq> certificateFile nkf \<Longrightarrow>
      files (snd (write_key_and_chain nkf keyPem certPems w)) p = files w p"
  using assms
  by (auto simp: write_key_and_chain_def Let_def io_bind_def io_return_def existsSync_def
      writeFileSync_def rmSync_def fold_appendFileSync_same fold_appendFileSync_other
      split: option.splits)



lemma decode_cert_pems:
  "PemConverter_decode (concat (map (\<lambda>c. cert_toString_pem c @ newline) chain)) = map X509 chain"
  by (induction chain) (auto simp: cert_toString_pem_def PemConverter_encode_def newline_def)

lemma storeNodeKey_effect:
  assumes "nodeId \<noteq> []" and "keysDir \<noteq> []"
    and "privateKeyFile nkf \<noteq> []" and "certificateFile nkf \<noteq> []"
    and "extractable (privateKey key)" and "certificateFile nkf \<notin> dirs w"
  shows "fst (storeNodeKey nodeId (Some key) keysDir (Some nkf) w) = Inr nkf \<and>
    files (snd (storeNodeKey nodeId (Some key) keysDir (Some nkf) w)) (certificateFile nkf) =
      (if certificateChain key = [] then None
       else Some (concat (map (\<lambda>c. cert_toString_pem c @ newline) (certificateChain key)))) \<and>
    PemConverter_decode
      (case files (snd (storeNodeKey nodeId (Some key) keysDir (Some nkf) w)) (certificateFile nkf) of
         None \<Rightarrow> [] | Some c \<Rightarrow> c) = map X509 (certificateChain key) \<and>
    (privateKeyFile nkf \<noteq> certificateFile nkf \<longrightarrow>
       files (snd (storeNodeKey nodeId (Some key) keysDir (Some nkf) w)) (privateKeyFile nkf) =
         Some [Pem ''PRIVATE KEY'' (Pkcs8 (priv_id (privateKey key)) (priv_type (privateKey key)))]) \<and>
    (\<forall>p. p \<noteq> privateKeyFile nkf \<and> p \<noteq> certificateFile nkf \<longrightarrow>
       files (snd (storeNodeKey nodeId (Some key) keysDir (Some nkf) w)) p = files w p)"
proof -
  let ?keyPem = "[Pem ''PRIVATE KEY'' (Pkcs8 (priv_id (privateKey key)) (priv_type (privateKey key)))]"
  let ?pems = "map cert_toString_pem (certificateChain key)"
  have pem: "convertPrivateKeyToPem (privateKey key) = Inr ?keyPem"
    using assms(5)
    by (simp add: convertPrivateKeyToPem_def exportKey_pkcs8_def bind_result_def
        PemConverter_encode_def)
  have store: "storeNodeKey nodeId (Some key) keysDir (Some nkf) w =
      write_key_and_chain nkf ?keyPem ?pems w"
    using assms(1-4) pem by (simp add: storeNodeKey_def)
  have conc: "concat (map (\<lambda>c. c @ newline) ?pems) =
      concat (map (\<lambda>c. cert_toString_pem c @ newline) (certificateChain key))"
    by (simp add: comp_def)
  note r = write_key_and_chain_result [OF assms(6), of keyPem certPems for keyPem certPems]
  have cert: "files (snd (storeNodeKey nodeId (Some key) keysDir (Some nkf) w)) (certificateFile nkf) =
      (if certificateChain key = [] then None
       else Some (concat (map (\<lambda>c. cert_toString_pem c @ newline) (certificateChain key))))"
    using r(2) [of ?keyPem ?pems] conc by (simp add: store)
  show ?thesis
    using r(1) [of ?keyPem ?pems] r(3) [of ?keyPem ?pems] r(4) [of _ ?keyPem ?pems]
    by (simp add: cert decode_cert_pems) (simp add: store)
qed



lemma convertPemToPrivateKey_last:
  "PemConverter_decode keyPem = blocks @ [raw] \<Longrightarrow>
     convertPemToPrivateKey keyPem (Some algo) keyUsages = importKey_pkcs8 (Some raw) algo False keyUsages"
  by (simp add: convertPemToPrivateKey_def Let_def)

lemma bind_result_Inr:
  "bind_result r f = Inr y \<longleftrightarrow> (\<exists>x. r = Inr x \<and> f x = Inr y)"
  by (cases r) (auto simp: bind_result_def)

lemma bind_result_simps [simp]:
  "bind_result (Inl e) f = Inl e"
  "bind_result (Inr x) f = f x"
  by (auto simp: bind_result_def)

text \<open>
  Claim C8. When the text handed to \<open>convertPemToPrivateKey\<close> holds one or more PEM
  blocks, the key is imported from the last block. \<open>loadNodeKey\<close> reads the private key
  file and does the same: the private key it returns is the import of the last block of
  the file, and when that block cannot be imported it fails with the import's error,
  whatever the blocks before it are.
\<close>

theorem loadNodeKey_takes_last_pem_block:
  assumes "PemConverter_decode keyPem = blocks @ [raw]"
  shows "convertPemToPrivateKey keyPem (Some algo) keyUsages =
      importKey_pkcs8 (Some raw) algo False keyUsages \<and>
    (nodeId \<noteq> [] \<and> keysDir \<noteq> [] \<and> privateKeyFile nkf \<noteq> [] \<and> certificateFile nkf \<noteq> [] \<and>
     files w (privateKeyFile nkf) = Some keyPem \<longrightarrow>
       (\<forall>key. loadNodeKey nodeId keysDir (Some algo) (Some nkf) w = Inr key \<longrightarrow>
          importKey_pkcs8 (Some raw) algo False [''sign''] = Inr (privateKey key)) \<and>
       (\<forall>e. importKey_pkcs8 (Some raw) algo False [''sign''] = Inl e \<longrightarrow>
          loadNodeKey nodeId keysDir (Some algo) (Some nkf) w = Inl e))"
proof (intro conjI impI allI)
  show "convertPemToPrivateKey keyPem (Some algo) keyUsages =
      importKey_pkcs8 (Some raw) algo False keyUsages"
    using assms by (rule convertPemToPrivateKey_last)
next
  fix key
  assume args: "nodeId \<noteq> [] \<and> keysDir \<noteq> [] \<and> privateKeyFile nkf \<noteq> [] \<and>
      certificateFile nkf \<noteq> [] \<and> files w (privateKeyFile nkf) = Some keyPem"
    and load: "loadNodeKey nodeId keysDir (Some algo) (Some nkf) w = Inr key"
  have conv: "convertPemToPrivateKey keyPem (Some algo) [''sign''] =
      importKey_pkcs8 (Some raw) algo False [''sign'']"
    using assms by (rule convertPemToPrivateKey_last)
  show "importKey_pkcs8 (Some raw) algo False [''sign''] = Inr (privateKey key)"
    using load args
    by (auto simp: loadNodeKey_def readFileSync_def conv bind_result_Inr neq_Nil_conv
        split: list.splits)
next
  fix e
  assume args: "nodeId \<noteq> [] \<and> keysDir \<noteq> [] \<and> privateKeyFile nkf \<noteq> [] \<and>
      certificateFile nkf \<noteq> [] \<and> files w (privateKeyFile nkf) = Some keyPem"
    and imp: "importKey_pkcs8 (Some raw) algo False [''sign''] = Inl e"
  have conv: "convertPemToPrivateKey keyPem (Some algo) [''sign''] = Inl e"
    using assms imp by (simp add: convertPemToPrivateKey_last)
  show "loadNodeKey nodeId keysDir (Some algo) (Some nkf) w = Inl e"
    using args by (simp add: loadNodeKey_def readFileSync_def conv)
qed

lemma build_from_self_signed:
  "isSelfSigned c \<Longrightarrow> build_from certificates chain c = Inr chain"
  by (simp add: build_from.simps findIssuer_def)

lemma isSelfSigned_signing_cert0: "isSelfSigned signing_cert0"
  by (simp add: isSelfSigned_def cert_verify_def signing_cert0_def)

theorem loadNodeKey_takes_last_pem_block_witness:
  "PemConverter_decode (the (files world_with_bundle ''keys/s-private-node0.pem'')) =
     [X509 signing_cert0] @ [Pkcs8 1 (RSA 3072)] \<and>
   loadNodeKey ''node0'' ''keys'' (Some SigningKeyAlgo) (Some signing_files0) world_with_bundle =
     Inr (signing_key0\<lparr>privateKey :=
       \<lparr>priv_id = 1, priv_type = RSA 3072, extractable = False, usages = [''sign'']\<rparr>\<rparr>) \<and>
   importKey_pkcs8 (Some (Pkcs8 1 (RSA 3072))) SigningKeyAlgo False [''sign''] =
     Inr \<lparr>priv_id = 1, priv_type = RSA 3072, extractable = False, usages = [''sign'']\<rparr>"
proof -
  have dec: "PemConverter_decode (the (files world_with_bundle ''keys/s-private-node0.pem'')) =
      [X509 signing_cert0] @ [Pkcs8 1 (RSA 3072)]"
    by (simp add: world_with_bundle_def)
  have load: "loadNodeKey ''node0'' ''keys'' (Some SigningKeyAlgo) (Some signing_files0)
      world_with_bundle =
      Inr (signing_key0\<lparr>privateKey :=
        \<lparr>priv_id = 1, priv_type = RSA 3072, extractable = False, usages = [''sign'']\<rparr>\<rparr>)"
    by (simp add: loadNodeKey_def signing_files0_def world_with_bundle_def readFileSync_def
        convertPemToPrivateKey_def SigningKeyAlgo_def X509ChainBuilder_build_def
        build_from_self_signed isSelfSigned_signing_cert0 signing_key0_def)
  show ?thesis
    using loadNodeKey_takes_last_pem_block
      [where keyPem = "the (files world_with_bundle ''keys/s-private-node0.pem'')"
         and blocks = "[X509 signing_cert0]" and raw = "Pkcs8 1 (RSA 3072)"
         and algo = SigningKeyAlgo and nodeId = "''node0''" and keysDir = "''keys''"
         and nkf = signing_files0 and w = world_with_bundle, OF dec]
      load dec
    by (simp add: signing_files0_def world_with_bundle_def signing_key0_def)
qed

lemma certs_of_X509:
  "certs_of (map X509 cs) = Inr cs"
  by (induction cs) auto

lemma store_then_load:
  assumes "nodeId \<noteq> []" and "keysDir \<noteq> []"
    and "privateKeyFile nkf \<noteq> []" and "certificateFile nkf \<noteq> []"
    and "extractable (privateKey key)" and "certificateFile nkf \<notin> dirs w"
    and distinct: "privateKeyFile nkf \<noteq> certificateFile nkf"
    and accepts: "algorithm_accepts algo (priv_type (privateKey key))"
    and chain: "certificateChain key = certificate key # others"
    and build: "X509ChainBuilder_build others (certificate key) = Inr rebuilt"
  shows "loadNodeKey nodeId keysDir (Some algo) (Some nkf)
      (snd (storeNodeKey nodeId (Some key) keysDir (Some nkf) w)) =
    Inr \<lparr>privateKey = \<lparr>priv_id = priv_id (privateKey key), priv_type = priv_type (privateKey key),
            extractable = False, usages = [''sign'']\<rparr>,
         certificate = certificate key, certificateChain = rebuilt\<rparr>"
proof -
  let ?w' = "snd (storeNodeKey nodeId (Some key) keysDir (Some nkf) w)"
  note eff = storeNodeKey_effect [OF assms(1-6)]
  have keyfile: "files ?w' (privateKeyFile nkf) =
      Some [Pem ''PRIVATE KEY'' (Pkcs8 (priv_id (privateKey key)) (priv_type (privateKey key)))]"
    using eff distinct by blast
  have certfile: "files ?w' (certificateFile nkf) =
      Some (concat (map (\<lambda>c. cert_toString_pem c @ newline) (certificateChain key)))"
    using eff chain by simp
  have conv: "convertPemToPrivateKey
      [Pem ''PRIVATE KEY'' (Pkcs8 (priv_id (privateKey key)) (priv_type (privateKey key)))]
      (Some algo) [''sign''] =
      Inr \<lparr>priv_id = priv_id (privateKey key), priv_type = priv_type (privateKey key),
           extractable = False, usages = [''sign'']\<rparr>"
    using accepts by (simp add: convertPemToPrivateKey_def)
  have certs: "certs_of (PemConverter_decode
      (concat (map (\<lambda>c. cert_toString_pem c @ newline) (certificateChain key)))) =
      Inr (certificate key # others)"
    by (simp only: decode_cert_pems certs_of_X509 chain)
  show ?thesis
    using assms(1-4) build
    by (simp add: loadNodeKey_def readFileSync_def keyfile certfile conv certs)
qed




section \<open>Properties of key generation\<close>

lemma rethrow_simps [simp]:
  "rethrow prefix (Inl e) = Inl (Error FullstackTestingError (prefix @ message e))"
  "rethrow prefix (Inr v) = Inr v"
  by (simp_all add: rethrow_def)

lemma build_from_no_certificates:
  "build_from [] chain c = Inr chain"
  by (simp add: build_from.simps findIssuer_def)

lemma generateSigningKey_cases:
  "generateSigningKey prov validityYears curDate nodeId =
     (case prov SigningKeyAlgo of
        None \<Rightarrow> Inl (Error FullstackTestingError ''failed to generate signing key: OperationError'')
      | Some k \<Rightarrow>
          Inr \<lparr>privateKey = \<lparr>priv_id = k, priv_type = RSA 3072, extractable = True, usages = [''sign'']\<rparr>,
               certificate =
                 \<lparr>serialNumber = ''01'', subject = ''CN=s-'' @ nodeId, issuer = ''CN=s-'' @ nodeId,
                  notBefore = curDate,
                  notAfter = setFullYear curDate (year curDate + validityYears),
                  cert_publicKey = \<lparr>pub_id = k, pub_type = RSA 3072\<rparr>,
                  extensions = [BasicConstraintsExtension True 1 True,
                    ExtendedKeyUsageExtension [''serverAuth'', ''clientAuth''] True,
                    KeyUsagesExtension [keyCertSign, cRLSign] True,
                    SubjectKeyIdentifierExtension k False],
                  signed_by = k\<rparr>,
               certificateChain =
                 [\<lparr>serialNumber = ''01'', subject = ''CN=s-'' @ nodeId, issuer = ''CN=s-'' @ nodeId,
                  notBefore = curDate,
                  notAfter = setFullYear curDate (year curDate + validityYears),
                  cert_publicKey = \<lparr>pub_id = k, pub_type = RSA 3072\<rparr>,
                  extensions = [BasicConstraintsExtension True 1 True,
                    ExtendedKeyUsageExtension [''serverAuth'', ''clientAuth''] True,
                    KeyUsagesExtension [keyCertSign, cRLSign] True,
                    SubjectKeyIdentifierExtension k False],
                  signed_by = k\<rparr>]\<rparr>)"
  by (simp add: generateSigningKey_def generateKey_def SigningKeyAlgo_def SigningKeyUsage_def
      key_type_of_def X509_createSelfSigned_def X509_create_def X509ChainBuilder_build_def
      build_from_no_certificates SIGNING_KEY_PREFIX_def renderNodeFriendlyName_def Let_def
      split: option.splits)

lemma generateSigningKey_self_signed:
  assumes "generateSigningKey prov validityYears curDate nodeId = Inr key"
  shows "issuer (certificate key) = subject (certificate key)"
    and "isSelfSigned (certificate key)"
    and "certificateChain key = [certificate key]"
    and "pub_id (cert_publicKey (certificate key)) = priv_id (privateKey key)"
  using assms
  by (auto simp: generateSigningKey_cases isSelfSigned_def cert_verify_def split: option.splits)

text \<open>The certificate that \<open>ecKey\<close> issues for a key pair number \<open>k\<close>.\<close>

lemma ecKey_cases:
  assumes "nodeId \<noteq> []" and "keyPrefix \<noteq> []"
  shows "ecKey prov validityYears curDate nodeId keyPrefix (Some sk) =
     (case prov ECKeyAlgo of
        None \<Rightarrow> Inl (Error FullstackTestingError
                 (''failed to generate '' @ keyPrefix @ ''-key: OperationError''))
      | Some k \<Rightarrow>
          if ''sign'' \<notin> set (usages (privateKey sk))
          then Inl (Error FullstackTestingError
                 (''failed to generate '' @ keyPrefix @ ''-key: InvalidAccessError''))
          else if priv_id (privateKey sk) \<noteq> pub_id (cert_publicKey (certificate sk))
          then Inl (Error FullstackTestingError
                 (''failed to generate '' @ keyPrefix @ ''-key: ''
                  @ ''failed to verify generated certificate for '' @ [CHR 0x27]
                  @ keyPrefix @ ''-'' @ nodeId @ [CHR 0x27]))
          else
            rethrow (''failed to generate '' @ keyPrefix @ ''-key: '')
              (bind_result
                (X509ChainBuilder_build [certificate sk]
                  \<lparr>serialNumber = ''01'', subject = ''CN='' @ keyPrefix @ ''-'' @ nodeId,
                   issuer = subject (certificate sk), notBefore = curDate,
                   notAfter = setFullYear curDate (year curDate + validityYears),
                   cert_publicKey = \<lparr>pub_id = k, pub_type = EC ''P-384''\<rparr>,
                   extensions = [KeyUsagesExtension [digitalSignature, keyEncipherment] False],
                   signed_by = priv_id (privateKey sk)\<rparr>)
                (\<lambda>certChain.
                   Inr \<lparr>privateKey = \<lparr>priv_id = k, priv_type = EC ''P-384'', extractable = True,
                          usages = [''sign'']\<rparr>,
                        certificate =
                          \<lparr>serialNumber = ''01'', subject = ''CN='' @ keyPrefix @ ''-'' @ nodeId,
                           issuer = subject (certificate sk), notBefore = curDate,
                           notAfter = setFullYear curDate (year curDate + validityYears),
                           cert_publicKey = \<lparr>pub_id = k, pub_type = EC ''P-384''\<rparr>,
                           extensions = [KeyUsagesExtension [digitalSignature, keyEncipherment] False],
                           signed_by = priv_id (privateKey sk)\<rparr>,
                        certificateChain = certChain\<rparr>)))"
  using assms
  by (simp add: ecKey_def generateKey_def ECKeyAlgo_def key_type_of_def X509_create_def
      cert_verify_def renderNodeFriendlyName_def Let_def split: option.splits)

lemma findIssuer_top:
  "findIssuer [c] c = None"
  by (auto simp: findIssuer_def issued_by_def isSelfSigned_def)

lemma build_issued:
  assumes "issuer cert = subject skcert" and "cert_verify cert (cert_publicKey skcert)"
    and "authorityKeyId (extensions cert) = None" and "\<not> isSelfSigned cert" and "cert \<noteq> skcert"
  shows "X509ChainBuilder_build [skcert] cert = Inr [cert, skcert]"
proof -
  have first: "findIssuer [skcert] cert = Some skcert"
    using assms by (simp add: findIssuer_def issued_by_def)
  show ?thesis
    unfolding X509ChainBuilder_build_def
    using assms(5) first findIssuer_top [of skcert]
    by (simp add: build_from.simps [of "[skcert]" "[cert]" cert]
        build_from.simps [of "[skcert]" "[cert, skcert]" skcert])
qed

lemma generateAgreementKey_Inr:
  assumes ok: "generateAgreementKey prov validityYears curDate nodeId (Some sk) = Inr akey"
  shows "\<exists>k chain. prov ECKeyAlgo = Some k \<and> ''sign'' \<in> set (usages (privateKey sk)) \<and>
      priv_id (privateKey sk) = pub_id (cert_publicKey (certificate sk)) \<and>
      privateKey akey = \<lparr>priv_id = k, priv_type = EC ''P-384'', extractable = True,
         usages = [''sign'']\<rparr> \<and>
      certificate akey =
        \<lparr>serialNumber = ''01'', subject = ''CN=a-'' @ nodeId,
         issuer = subject (certificate sk), notBefore = curDate,
         notAfter = setFullYear curDate (year curDate + validityYears),
         cert_publicKey = \<lparr>pub_id = k, pub_type = EC ''P-384''\<rparr>,
         extensions = [KeyUsagesExtension [digitalSignature, keyEncipherment] False],
         signed_by = priv_id (privateKey sk)\<rparr> \<and>
      X509ChainBuilder_build [certificate sk] (certificate akey) = Inr chain \<and>
      certificateChain akey = chain"
proof -
  have n: "nodeId \<noteq> []"
    using ok by (auto simp: generateAgreementKey_def ecKey_def)
  have p: "AGREEMENT_KEY_PREFIX \<noteq> []"
    by (simp add: AGREEMENT_KEY_PREFIX_def)
  show ?thesis
    using ok unfolding generateAgreementKey_def ecKey_cases [OF n p]
    by (auto simp: AGREEMENT_KEY_PREFIX_def rethrow_def bind_result_def
        split: option.splits if_splits sum.splits)
qed

lemma generateAgreementKey_chain:
  assumes ok: "generateAgreementKey prov validityYears curDate nodeId (Some sk) = Inr akey"
    and fresh: "prov ECKeyAlgo \<noteq> Some (priv_id (privateKey sk))"
  shows "certificateChain akey = [certificate akey, certificate sk]"
proof -
  from generateAgreementKey_Inr [OF ok] obtain k chain where
    k: "prov ECKeyAlgo = Some k"
    and m: "priv_id (privateKey sk) = pub_id (cert_publicKey (certificate sk))"
    and c: "certificate akey =
        \<lparr>serialNumber = ''01'', subject = ''CN=a-'' @ nodeId,
         issuer = subject (certificate sk), notBefore = curDate,
         notAfter = setFullYear curDate (year curDate + validityYears),
         cert_publicKey = \<lparr>pub_id = k, pub_type = EC ''P-384''\<rparr>,
         extensions = [KeyUsagesExtension [digitalSignature, keyEncipherment] False],
         signed_by = priv_id (privateKey sk)\<rparr>"
    and b: "X509ChainBuilder_build [certificate sk] (certificate akey) = Inr chain"
    and ch: "certificateChain akey = chain"
    by blast
  have kf: "k \<noteq> priv_id (privateKey sk)"
    using fresh k by auto
  have iss: "issuer (certificate akey) = subject (certificate sk)"
    by (simp add: c)
  have v: "cert_verify (certificate akey) (cert_publicKey (certificate sk))"
    using m by (simp add: c cert_verify_def)
  have a: "authorityKeyId (extensions (certificate akey)) = None"
    by (simp add: c)
  have ns: "\<not> isSelfSigned (certificate akey)"
    using kf by (auto simp: c isSelfSigned_def cert_verify_def)
  have ne: "certificate akey \<noteq> certificate sk"
  proof
    assume "certificate akey = certificate sk"
    then have "pub_id (cert_publicKey (certificate akey)) = pub_id (cert_publicKey (certificate sk))"
      by simp
    then have "k = priv_id (privateKey sk)"
      using m by (simp add: c)
    then show False
      using kf by simp
  qed
  have "chain = [certificate akey, certificate sk]"
    using build_issued [OF iss v a ns ne] b by simp
  then show ?thesis
    by (simp add: ch)
qed

lemma generateAgreementKey_issuer:
  assumes "generateAgreementKey prov validityYears curDate nodeId (Some sk) = Inr akey"
  shows "issuer (certificate akey) = subject (certificate sk)"
  using generateAgreementKey_Inr [OF assms] by auto

text \<open>
  Claim C6. A key pair that \<open>generateSigningKey\<close> returns has a self-signed certificate:
  issuer and subject are equal and the certificate verifies under its own public key.
  A key pair that \<open>generateAgreementKey\<close> returns for a signing key has a certificate
  whose issuer is the subject of the signing certificate, and, the new key being fresh
  (not the signing key itself), its chain is the agreement certificate followed by the
  signing certificate, so it ends at the signing certificate.
\<close>

theorem generated_certificates_chain_to_signing_certificate:
  "(generateSigningKey prov validityYears curDate nodeId = Inr key \<longrightarrow>
      issuer (certificate key) = subject (certificate key) \<and>
      isSelfSigned (certificate key) \<and>
      certificateChain key = [certificate key]) \<and>
   (generateAgreementKey prov validityYears curDate nodeId (Some sk) = Inr akey \<longrightarrow>
      issuer (certificate akey) = subject (certificate sk) \<and>
      (prov ECKeyAlgo \<noteq> Some (priv_id (privateKey sk)) \<longrightarrow>
         certificateChain akey = [certificate akey, certificate sk] \<and>
         last (certificateChain akey) = certificate sk))"
proof (intro conjI impI)
  assume "generateSigningKey prov validityYears curDate nodeId = Inr key"
  note s = generateSigningKey_self_signed [OF this]
  show "issuer (certificate key) = subject (certificate key)" by (rule s(1))
  show "isSelfSigned (certificate key)" by (rule s(2))
  show "certificateChain key = [certificate key]" by (rule s(3))
next
  assume ok: "generateAgreementKey prov validityYears curDate nodeId (Some sk) = Inr akey"
  show "issuer (certificate akey) = subject (certificate sk)"
    using ok by (rule generateAgreementKey_issuer)
  {
    assume fresh: "prov ECKeyAlgo \<noteq> Some (priv_id (privateKey sk))"
    have chain: "certificateChain akey = [certificate akey, certificate sk]"
      using ok fresh by (rule generateAgreementKey_chain)
    then show "certificateChain akey = [certificate akey, certificate sk]"
      "last (certificateChain akey) = certificate sk"
      by simp_all
  }
qed

lemma generateSigningKey_test:
  "generateSigningKey test_provider 100 test_date ''node0'' = Inr signing_key0"
  by (simp add: generateSigningKey_cases test_provider_def SigningKeyAlgo_def signing_key0_def
      signing_cert0_def setFullYear_def test_date_def)

lemma generateAgreementKey_test:
  "generateAgreementKey test_provider 100 test_date ''node0'' (Some signing_key0) = Inr agreement_key0"
  by (simp add: generateAgreementKey_def ecKey_cases AGREEMENT_KEY_PREFIX_def test_provider_def
      ECKeyAlgo_def signing_key0_def signing_cert0_def agreement_key0_def agreement_cert0_def
      setFullYear_def test_date_def X509ChainBuilder_build_def build_from.simps findIssuer_def
      isSelfSigned_def issued_by_def cert_verify_def)

theorem generated_certificates_chain_to_signing_certificate_witness:
  "generateSigningKey test_provider 100 test_date ''node0'' = Inr signing_key0 \<and>
   generateAgreementKey test_provider 100 test_date ''node0'' (Some signing_key0) =
     Inr agreement_key0 \<and>
   test_provider ECKeyAlgo \<noteq> Some (priv_id (privateKey signing_key0)) \<and>
   issuer (certificate signing_key0) = subject (certificate signing_key0) \<and>
   isSelfSigned (certificate signing_key0) \<and>
   issuer (certificate agreement_key0) = subject (certificate signing_key0) \<and>
   certificateChain agreement_key0 = [certificate agreement_key0, certificate signing_key0] \<and>
   last (certificateChain agreement_key0) = certificate signing_key0"
proof -
  have fresh: "test_provider ECKeyAlgo \<noteq> Some (priv_id (privateKey signing_key0))"
    by (simp add: test_provider_def ECKeyAlgo_def signing_key0_def)
  show ?thesis
    using generated_certificates_chain_to_signing_certificate
      [where prov = test_provider and validityYears = 100 and curDate = test_date
         and nodeId = "''node0''" and key = signing_key0 and sk = signing_key0
         and akey = agreement_key0]
      generateSigningKey_test generateAgreementKey_test fresh
    by blast
qed






section \<open>The round trip for each key role\<close>

lemma build_self_signed:
  "isSelfSigned cert \<Longrightarrow> X509ChainBuilder_build certificates cert = Inr [cert]"
  by (simp add: X509ChainBuilder_build_def build_from_self_signed)

lemma generateGrpcTLSKey_Inr:
  assumes "generateGrpcTLSKey prov validityYears curDate nodeId dn = Inr key"
  shows "isSelfSigned (certificate key)" and "certificateChain key = [certificate key]"
    and "extractable (privateKey key)" and "priv_type (privateKey key) = RSA 4096"
    and "pub_id (cert_publicKey (certificate key)) = priv_id (privateKey key)"
  using assms
  by (auto simp: generateGrpcTLSKey_def generateKey_def TLSKeyAlgo_def TLSKeyUsage_def
      key_type_of_def X509_createSelfSigned_def X509_create_def X509ChainBuilder_build_def
      build_from_no_certificates isSelfSigned_def cert_verify_def Let_def rethrow_def
      split: option.splits if_splits)

text \<open>
  The round trip for the three roles: a key pair as the generator of the role returns
  it, stored and loaded by the role's own functions, comes back with its certificate
  and chain; the private key is the same key, imported as not extractable.
\<close>

lemma signing_key_round_trip:
  assumes gen: "generateSigningKey prov validityYears curDate nodeId = Inr key"
    and args: "nodeId \<noteq> []" "keysDir \<noteq> []"
    and nodir: "path_join keysDir (renderGossipPemPublicKeyFile (Some SIGNING_KEY_PREFIX) (Some nodeId))
      \<notin> dirs w"
  shows "loadSigningKey nodeId keysDir (snd (storeSigningKey nodeId (Some key) keysDir w)) =
    Inr (key\<lparr>privateKey := (privateKey key)\<lparr>extractable := False\<rparr>\<rparr>)"
proof -
  let ?nkf = "\<lparr>privateKeyFile =
        path_join keysDir (renderGossipPemPrivateKeyFile (Some SIGNING_KEY_PREFIX) (Some nodeId)),
      certificateFile =
        path_join keysDir (renderGossipPemPublicKeyFile (Some SIGNING_KEY_PREFIX) (Some nodeId))\<rparr>"
  have prep: "prepareNodeKeyFilePaths nodeId keysDir SIGNING_KEY_PREFIX = Inr ?nkf"
    using args by (simp add: prepareNodeKeyFilePaths_def SIGNING_KEY_PREFIX_def)
  note s = generateSigningKey_self_signed [OF gen]
  have pk: "priv_type (privateKey key) = RSA 3072" "extractable (privateKey key)"
    "usages (privateKey key) = [''sign'']"
    using gen by (auto simp: generateSigningKey_cases split: option.splits)
  have load: "loadNodeKey nodeId keysDir (Some SigningKeyAlgo) (Some ?nkf)
      (snd (storeNodeKey nodeId (Some key) keysDir (Some ?nkf) w)) =
    Inr \<lparr>privateKey = \<lparr>priv_id = priv_id (privateKey key), priv_type = priv_type (privateKey key),
            extractable = False, usages = [''sign'']\<rparr>,
         certificate = certificate key, certificateChain = [certificate key]\<rparr>"
  proof (rule store_then_load [where others = "[]"])
    show "privateKeyFile ?nkf \<noteq> certificateFile ?nkf"
      by (simp add: path_join_def renderGossipPemPrivateKeyFile_def renderGossipPemPublicKeyFile_def)
    show "algorithm_accepts SigningKeyAlgo (priv_type (privateKey key))"
      by (simp add: pk SigningKeyAlgo_def)
    show "extractable (privateKey key)"
      by (rule pk)
    show "X509ChainBuilder_build [] (certificate key) = Inr [certificate key]"
      using s(2) by (rule build_self_signed)
  qed (use args nodir s(3) in \<open>simp_all add: path_join_def\<close>)
  have "key\<lparr>privateKey := (privateKey key)\<lparr>extractable := False\<rparr>\<rparr> =
      \<lparr>privateKey = \<lparr>priv_id = priv_id (privateKey key), priv_type = priv_type (privateKey key),
            extractable = False, usages = [''sign'']\<rparr>,
         certificate = certificate key, certificateChain = [certificate key]\<rparr>"
    using s(3) pk(3) by (cases key, cases "privateKey key") simp
  then show ?thesis
    using load by (simp add: loadSigningKey_def storeSigningKey_def prep)
qed

lemma tls_key_round_trip:
  assumes gen: "generateGrpcTLSKey prov validityYears curDate nodeId dn = Inr key"
    and args: "keysDir \<noteq> []"
    and nodir: "path_join keysDir (''hedera-'' @ nodeId @ ''.crt'') \<notin> dirs w"
  shows "loadTLSKey nodeId keysDir (snd (storeTLSKey nodeId (Some key) keysDir w)) =
    Inr (key\<lparr>privateKey := (privateKey key)\<lparr>extractable := False\<rparr>\<rparr>)"
proof -
  let ?nkf = "\<lparr>privateKeyFile = path_join keysDir (''hedera-'' @ nodeId @ ''.key''),
      certificateFile = path_join keysDir (''hedera-'' @ nodeId @ ''.crt'')\<rparr>"
  have n: "nodeId \<noteq> []"
    using gen by (auto simp: generateGrpcTLSKey_def Let_def split: if_splits)
  have prep: "prepareTLSKeyFilePaths nodeId keysDir = Inr ?nkf"
    using n args by (simp add: prepareTLSKeyFilePaths_def)
  note s = generateGrpcTLSKey_Inr [OF gen]
  have us: "usages (privateKey key) = [''sign'']"
    using gen
    by (auto simp: generateGrpcTLSKey_def generateKey_def TLSKeyUsage_def
        X509_createSelfSigned_def X509_create_def X509ChainBuilder_build_def
        build_from_no_certificates Let_def rethrow_def split: option.splits if_splits)
  have load: "loadNodeKey nodeId keysDir (Some TLSKeyAlgo) (Some ?nkf)
      (snd (storeNodeKey nodeId (Some key) keysDir (Some ?nkf) w)) =
    Inr \<lparr>privateKey = \<lparr>priv_id = priv_id (privateKey key), priv_type = priv_type (privateKey key),
            extractable = False, usages = [''sign'']\<rparr>,
         certificate = certificate key, certificateChain = [certificate key]\<rparr>"
  proof (rule store_then_load [where others = "[]"])
    show "privateKeyFile ?nkf \<noteq> certificateFile ?nkf"
      by (simp add: path_join_def)
    show "algorithm_accepts TLSKeyAlgo (priv_type (privateKey key))"
      by (simp add: s(4) TLSKeyAlgo_def)
    show "extractable (privateKey key)"
      by (rule s(3))
    show "X509ChainBuilder_build [] (certificate key) = Inr [certificate key]"
      using s(1) by (rule build_self_signed)
  qed (use n args nodir s(2) in \<open>simp_all add: path_join_def\<close>)
  have "key\<lparr>privateKey := (privateKey key)\<lparr>extractable := False\<rparr>\<rparr> =
      \<lparr>privateKey = \<lparr>priv_id = priv_id (privateKey key), priv_type = priv_type (privateKey key),
            extractable = False, usages = [''sign'']\<rparr>,
         certificate = certificate key, certificateChain = [certificate key]\<rparr>"
    using s(2) us by (cases key, cases "privateKey key") simp
  then show ?thesis
    using load by (simp add: loadTLSKey_def storeTLSKey_def prep)
qed

lemma agreement_key_round_trip:
  assumes gen: "generateAgreementKey prov validityYears curDate nodeId (Some sk) = Inr key"
    and fresh: "prov ECKeyAlgo \<noteq> Some (priv_id (privateKey sk))"
    and args: "keysDir \<noteq> []"
    and nodir: "path_join keysDir (renderGossipPemPublicKeyFile (Some AGREEMENT_KEY_PREFIX) (Some nodeId))
      \<notin> dirs w"
  shows "loadAgreementKey nodeId keysDir (snd (storeAgreementKey nodeId (Some key) keysDir w)) =
    Inr (key\<lparr>privateKey := (privateKey key)\<lparr>extractable := False\<rparr>\<rparr>)"
proof -
  let ?nkf = "\<lparr>privateKeyFile =
        path_join keysDir (renderGossipPemPrivateKeyFile (Some AGREEMENT_KEY_PREFIX) (Some nodeId)),
      certificateFile =
        path_join keysDir (renderGossipPemPublicKeyFile (Some AGREEMENT_KEY_PREFIX) (Some nodeId))\<rparr>"
  have n: "nodeId \<noteq> []"
    using gen by (auto simp: generateAgreementKey_def ecKey_def)
  have prep: "prepareNodeKeyFilePaths nodeId keysDir AGREEMENT_KEY_PREFIX = Inr ?nkf"
    using n args by (simp add: prepareNodeKeyFilePaths_def AGREEMENT_KEY_PREFIX_def)
  from generateAgreementKey_Inr [OF gen] obtain k chain where
    pk: "privateKey key = \<lparr>priv_id = k, priv_type = EC ''P-384'', extractable = True,
         usages = [''sign'']\<rparr>"
    and b: "X509ChainBuilder_build [certificate sk] (certificate key) = Inr chain"
    and ch: "certificateChain key = chain"
    by blast
  have chain: "certificateChain key = [certificate key, certificate sk]"
    using generateAgreementKey_chain [OF gen fresh] .
  have load: "loadNodeKey nodeId keysDir (Some ECKeyAlgo) (Some ?nkf)
      (snd (storeNodeKey nodeId (Some key) keysDir (Some ?nkf) w)) =
    Inr \<lparr>privateKey = \<lparr>priv_id = priv_id (privateKey key), priv_type = priv_type (privateKey key),
            extractable = False, usages = [''sign'']\<rparr>,
         certificate = certificate key, certificateChain = [certificate key, certificate sk]\<rparr>"
  proof (rule store_then_load [where others = "[certificate sk]"])
    show "privateKeyFile ?nkf \<noteq> certificateFile ?nkf"
      by (simp add: path_join_def renderGossipPemPrivateKeyFile_def renderGossipPemPublicKeyFile_def)
    show "algorithm_accepts ECKeyAlgo (priv_type (privateKey key))"
      by (simp add: pk ECKeyAlgo_def)
    show "extractable (privateKey key)"
      by (simp add: pk)
    show "X509ChainBuilder_build [certificate sk] (certificate key) =
        Inr [certificate key, certificate sk]"
      using b ch chain by simp
  qed (use n args nodir chain in \<open>simp_all add: path_join_def\<close>)
  have "key\<lparr>privateKey := (privateKey key)\<lparr>extractable := False\<rparr>\<rparr> =
      \<lparr>privateKey = \<lparr>priv_id = priv_id (privateKey key), priv_type = priv_type (privateKey key),
            extractable = False, usages = [''sign'']\<rparr>,
         certificate = certificate key, certificateChain = [certificate key, certificate sk]\<rparr>"
    using chain pk by (cases key, cases "privateKey key") simp
  then show ?thesis
    using load by (simp add: loadAgreementKey_def storeAgreementKey_def prep)
qed

section \<open>Properties of the backups\<close>

lemma makeBackup_frame:
  "p \<notin> fst ` set fileMap \<Longrightarrow> p \<notin> snd ` set fileMap \<Longrightarrow>
     files (snd (makeBackup fileMap removeOld w)) p = files w p"
proof (induction fileMap arbitrary: w)
  case Nil
  then show ?case by (simp add: io_return_def)
next
  case (Cons entry rest)
  obtain src dest where e: "entry = (src, dest)" by (cases entry)
  have p: "p \<noteq> src" "p \<noteq> dest" "p \<notin> fst ` set rest" "p \<notin> snd ` set rest"
    using Cons.prems e by auto
  let ?step = "\<lambda>w. if existsSync src w
      then io_bind (cpSync src dest) (\<lambda>u. if removeOld then rmSync src else io_return ()) w
      else (Inr (), w)"
  obtain r w1 where s: "?step w = (r, w1)" by (cases "?step w")
  have f1: "files w1 p = files w p"
    using s p(1,2)
    by (auto simp: io_bind_def io_return_def cpSync_def rmSync_def
        split: if_splits option.splits sum.splits prod.splits)
  show ?case
  proof (cases r)
    case (Inl err)
    then show ?thesis using s f1 e by (simp add: io_bind_def)
  next
    case (Inr u)
    then show ?thesis
      using s f1 e Cons.IH [OF p(3,4), of w1] by (simp add: io_bind_def)
  qed
qed

text \<open>
  What \<open>makeBackup\<close> does with a file map whose sources and destinations are all
  different paths, none of the sources a directory: it succeeds, every source that
  exists is copied to its destination and removed, and an entry whose source does not
  exist is skipped.
\<close>

lemma makeBackup_moves:
  assumes "distinct (map fst fileMap)" and "distinct (map snd fileMap)"
    and "fst ` set fileMap \<inter> snd ` set fileMap = {}"
    and "fst ` set fileMap \<inter> dirs w = {}"
  shows "fst (makeBackup fileMap True w) = Inr () \<and>
    (\<forall>(src, dest) \<in> set fileMap.
       files (snd (makeBackup fileMap True w)) src = None \<and>
       files (snd (makeBackup fileMap True w)) dest =
         (case files w src of None \<Rightarrow> files w dest | Some c \<Rightarrow> Some c))"
  using assms
proof (induction fileMap arbitrary: w)
  case Nil
  then show ?case by (simp add: io_return_def)
next
  case (Cons entry rest)
  obtain src dest where e: "entry = (src, dest)" by (cases entry)
  have d: "distinct (map fst rest)" "distinct (map snd rest)"
    "fst ` set rest \<inter> snd ` set rest = {}"
    "src \<notin> fst ` set rest" "src \<notin> snd ` set rest" "dest \<notin> fst ` set rest"
    "dest \<notin> snd ` set rest" "src \<noteq> dest" "src \<notin> dirs w"
    using Cons.prems e by auto
  let ?step = "\<lambda>w. if existsSync src w
      then io_bind (cpSync src dest) (\<lambda>u. rmSync src) w
      else (Inr (), w)"
  define w1 where "w1 = (case files w src of None \<Rightarrow> w
      | Some c \<Rightarrow> w\<lparr>files := (files w)(dest \<mapsto> c, src := None)\<rparr>)"
  have step: "?step w = (Inr (), w1)"
    using d(8,9)
    by (auto simp: w1_def existsSync_def io_bind_def cpSync_def rmSync_def split: option.splits)
  have dirs1: "dirs w1 = dirs w"
    by (simp add: w1_def split: option.splits)
  have f1: "files w1 p = files w p" if "p \<noteq> src" "p \<noteq> dest" for p
    using that by (simp add: w1_def split: option.splits)
  have run: "makeBackup (entry # rest) True w = makeBackup rest True w1"
    by (simp add: e) (subst io_bind_def, simp add: step)
  have ih: "fst (makeBackup rest True w1) = Inr () \<and>
    (\<forall>(s, t) \<in> set rest.
       files (snd (makeBackup rest True w1)) s = None \<and>
       files (snd (makeBackup rest True w1)) t =
         (case files w1 s of None \<Rightarrow> files w1 t | Some c \<Rightarrow> Some c))"
    using Cons.IH [of w1] d(1-3) Cons.prems(4) dirs1 by auto
  have src1: "files w1 src = None"
    by (simp add: w1_def split: option.splits)
  have dest1: "files w1 dest = (case files w src of None \<Rightarrow> files w dest | Some c \<Rightarrow> Some c)"
    using d(8) by (simp add: w1_def split: option.splits)
  have head: "files (snd (makeBackup rest True w1)) src = None"
    "files (snd (makeBackup rest True w1)) dest =
       (case files w src of None \<Rightarrow> files w dest | Some c \<Rightarrow> Some c)"
    using makeBackup_frame [OF d(4,5), of True w1] makeBackup_frame [OF d(6,7), of True w1]
      src1 dest1 by simp_all
  have tail: "files w1 s = files w s \<and> files w1 t = files w t" if "(s, t) \<in> set rest" for s t
  proof -
    have "s \<in> fst ` set rest" "t \<in> snd ` set rest"
      using that by (auto intro: rev_image_eqI)
    then have "s \<noteq> src" "s \<noteq> dest" "t \<noteq> src" "t \<noteq> dest"
      using d(4-7) by auto
    then show ?thesis
      using f1 by simp
  qed
  have ih2: "files (snd (makeBackup rest True w1)) s = None \<and>
      files (snd (makeBackup rest True w1)) t =
        (case files w s of None \<Rightarrow> files w t | Some c \<Rightarrow> Some c)"
    if "(s, t) \<in> set rest" for s t
  proof -
    have "files (snd (makeBackup rest True w1)) s = None \<and>
      files (snd (makeBackup rest True w1)) t =
        (case files w1 s of None \<Rightarrow> files w1 t | Some c \<Rightarrow> Some c)"
      using ih that by blast
    then show ?thesis
      using tail [OF that] by (simp split: option.splits)
  qed
  show ?case
    unfolding run using ih head ih2 by (auto simp: e)
qed

text \<open>
  Claim C10 at a concrete keys directory. \<open>backupOldTlsKeys\<close> moves the TLS private key
  of node0 into the dated directory. \<open>backupOldPemKeys\<close> makes the dated directory and
  returns its path, but looks for \<^verbatim>\<open>node0-private-undefined.pem\<close>: both PEM private keys
  of node0 stay where they are and nothing reaches the backup directory.
\<close>

theorem backupOldPemKeys_leaves_keys_in_place:
  "backupOldPemKeys [''node0''] ''keys'' test_date ''gossip-pem'' world_pem_keys =
     (Inr ''keys/unused-gossip-pem/20240205_101112'',
      world_pem_keys\<lparr>dirs := insert ''keys/unused-gossip-pem/20240205_101112''
        (dirs world_pem_keys)\<rparr>) \<and>
   files (snd (backupOldPemKeys [''node0''] ''keys'' test_date ''gossip-pem'' world_pem_keys))
     ''keys/s-private-node0.pem'' = Some [Pem ''PRIVATE KEY'' (Pkcs8 1 (RSA 3072))] \<and>
   files (snd (backupOldPemKeys [''node0''] ''keys'' test_date ''gossip-pem'' world_pem_keys))
     ''keys/unused-gossip-pem/20240205_101112/s-private-node0.pem'' = None \<and>
   fst (backupOldTlsKeys [''node0''] ''keys'' test_date ''tls'' world_pem_keys) =
     Inr ''keys/unused-tls/20240205_101112'' \<and>
   files (snd (backupOldTlsKeys [''node0''] ''keys'' test_date ''tls'' world_pem_keys))
     ''keys/hedera-node0.key'' = None \<and>
   files (snd (backupOldTlsKeys [''node0''] ''keys'' test_date ''tls'' world_pem_keys))
     ''keys/unused-tls/20240205_101112/hedera-node0.key'' =
     Some [Pem ''PRIVATE KEY'' (Pkcs8 3 (RSA 4096))]"
proof -
  have pem: "backupOldPemKeys [''node0''] ''keys'' test_date ''gossip-pem'' world_pem_keys =
     (Inr ''keys/unused-gossip-pem/20240205_101112'',
      world_pem_keys\<lparr>dirs := insert ''keys/unused-gossip-pem/20240205_101112''
        (dirs world_pem_keys)\<rparr>)"
    by (simp add: backupOldPemKeys_def createBackupDir_def test_date_def show_nat.simps
        digit_char_def padStart2_def mkdirSync_def Let_def renderGossipPemPrivateKeyFile_def
        js_string_def path_join_def io_bind_def io_return_def existsSync_def world_pem_keys_def)
  have tls: "backupOldTlsKeys [''node0''] ''keys'' test_date ''tls'' world_pem_keys =
     (Inr ''keys/unused-tls/20240205_101112'',
      world_pem_keys\<lparr>dirs := insert ''keys/unused-tls/20240205_101112'' (dirs world_pem_keys),
        files := (files world_pem_keys)
          (''keys/unused-tls/20240205_101112/hedera-node0.key'' \<mapsto>
             [Pem ''PRIVATE KEY'' (Pkcs8 3 (RSA 4096))],
           ''keys/hedera-node0.key'' := None)\<rparr>)"
    by (simp add: backupOldTlsKeys_def createBackupDir_def test_date_def show_nat.simps
        digit_char_def padStart2_def mkdirSync_def Let_def renderTLSPemPrivateKeyFile_def
        path_join_def io_bind_def io_return_def existsSync_def cpSync_def rmSync_def
        world_pem_keys_def)
  show ?thesis
    unfolding pem tls by (simp add: world_pem_keys_def)
qed

section \<open>Properties of the account map\<close>

lemma update_fresh_append:
  "k \<notin> fst ` set al \<Longrightarrow> AList.update k v al = al @ [(k, v)]"
  by (induction al) auto

lemma getNodeAccountMap_loop_append:
  "getNodeAccountMap_loop start a (xs @ ys) m =
     getNodeAccountMap_loop start (a + length xs) ys (getNodeAccountMap_loop start a xs m)"
  by (induction xs arbitrary: a m) auto

lemma getNodeAccountMap_loop_keys:
  "fst ` set (getNodeAccountMap_loop start a xs m) = fst ` set m \<union> set xs"
  by (induction xs arbitrary: a m) (auto simp: AList.dom_update)

lemma getNodeAccountMap_loop_distinct:
  "distinct xs \<Longrightarrow> set xs \<inter> fst ` set m = {} \<Longrightarrow>
   getNodeAccountMap_loop start a xs m =
     m @ zip xs (map (\<lambda>i. render_account start (a + i)) [0..<length xs])"
proof (induction xs arbitrary: a m)
  case Nil
  then show ?case by simp
next
  case (Cons x xs)
  have fresh: "x \<notin> fst ` set m"
    using Cons.prems(2) by auto
  have upd: "AList.update x (render_account start a) m = m @ [(x, render_account start a)]"
    using fresh by (rule update_fresh_append)
  have disj: "set xs \<inter> fst ` set (m @ [(x, render_account start a)]) = {}"
    using Cons.prems by auto
  have shift: "map (\<lambda>i. render_account start (a + i)) [0..<Suc (length xs)] =
      render_account start a # map (\<lambda>i. render_account start (Suc (a + i))) [0..<length xs]"
    by (simp add: upt_conv_Cons map_Suc_upt [symmetric] del: upt_Suc)
  show ?case
    using Cons.IH [of "m @ [(x, render_account start a)]" "a + 1"] Cons.prems(1) disj
    by (simp add: upd shift del: upt_Suc)
qed

text \<open>
  Claim C2. The account map is a function of the ordered node list and the start
  constant alone: for a list of distinct node names the i-th node receives
  \<open>realm.shard.(num + i)\<close>, in iteration order. Appending a node that is not yet listed
  adds one entry at the end, with the next number, and leaves the entry of every node
  listed before as it was.
\<close>

theorem getNodeAccountMap_deterministic_stable:
  "(distinct nodeIDs \<longrightarrow>
      getNodeAccountMap start nodeIDs =
        zip nodeIDs (map (\<lambda>i. render_account start (num start + i)) [0..<length nodeIDs])) \<and>
   (new \<notin> set nodeIDs \<longrightarrow>
      getNodeAccountMap start (nodeIDs @ [new]) =
        getNodeAccountMap start nodeIDs @ [(new, render_account start (num start + length nodeIDs))] \<and>
      (\<forall>n \<in> set nodeIDs.
         map_of (getNodeAccountMap start (nodeIDs @ [new])) n =
         map_of (getNodeAccountMap start nodeIDs) n))"
proof (intro conjI impI)
  assume "distinct nodeIDs"
  then show "getNodeAccountMap start nodeIDs =
      zip nodeIDs (map (\<lambda>i. render_account start (num start + i)) [0..<length nodeIDs])"
    using getNodeAccountMap_loop_distinct [of nodeIDs "[]" start "num start"]
    by (simp add: getNodeAccountMap_def)
next
  assume new: "new \<notin> set nodeIDs"
  have keys: "new \<notin> fst ` set (getNodeAccountMap start nodeIDs)"
    using new by (simp add: getNodeAccountMap_def getNodeAccountMap_loop_keys)
  show app: "getNodeAccountMap start (nodeIDs @ [new]) =
      getNodeAccountMap start nodeIDs @ [(new, render_account start (num start + length nodeIDs))]"
    using keys
    by (simp add: getNodeAccountMap_def getNodeAccountMap_loop_append update_fresh_append)
  show "\<forall>n \<in> set nodeIDs.
      map_of (getNodeAccountMap start (nodeIDs @ [new])) n =
      map_of (getNodeAccountMap start nodeIDs) n"
  proof
    fix n assume "n \<in> set nodeIDs"
    then have "n \<noteq> new" using new by auto
    then show "map_of (getNodeAccountMap start (nodeIDs @ [new])) n =
        map_of (getNodeAccountMap start nodeIDs) n"
      by (simp add: app map_add_def split: option.splits)
  qed
qed

theorem getNodeAccountMap_deterministic_stable_witness:
  "distinct [''node0'', ''node1'', ''node2''] \<and>
   ''node3'' \<notin> set [''node0'', ''node1'', ''node2''] \<and>
   getNodeAccountMap \<lparr>realm = 0, shard = 0, num = 3\<rparr> [''node0'', ''node1'', ''node2''] =
     [(''node0'', ''0.0.3''), (''node1'', ''0.0.4''), (''node2'', ''0.0.5'')] \<and>
   getNodeAccountMap \<lparr>realm = 0, shard = 0, num = 3\<rparr> [''node0'', ''node1'', ''node2'', ''node3''] =
     getNodeAccountMap \<lparr>realm = 0, shard = 0, num = 3\<rparr> [''node0'', ''node1'', ''node2'']
       @ [(''node3'', ''0.0.6'')] \<and>
   map_of (getNodeAccountMap \<lparr>realm = 0, shard = 0, num = 3\<rparr>
       [''node0'', ''node1'', ''node2'', ''node3'']) ''node1'' = Some ''0.0.4''"
  using getNodeAccountMap_deterministic_stable
    [of "[''node0'', ''node1'', ''node2'']" "\<lparr>realm = 0, shard = 0, num = 3\<rparr>" "''node3''"]
  by (simp add: render_account_def show_nat.simps digit_char_def upt_conv_Cons)

section \<open>Non-interference of the lifecycle key step\<close>

















end
